theory Spec2Isabelle
  imports Complex_Main "HOL-Library.Word"
begin

section \<open>Pins, outputs and strings\<close>

text \<open>
  Each sketch is a set of global variables, a \<^verbatim>\<open>loop()\<close> that the core calls for ever, and
  three HTTP handlers.  A call that acts on the outside world (\<^verbatim>\<open>digitalWrite\<close>,
  \<^verbatim>\<open>tone\<close>, \<^verbatim>\<open>delay\<close>, \<^verbatim>\<open>Serial.println\<close>, \<^verbatim>\<open>http.GET\<close>, \<^verbatim>\<open>server.send\<close>, ...) is
  recorded, in program order, as an event appended to the node's \<open>trace\<close>.  A call that
  reads the outside world (\<^verbatim>\<open>pulseIn\<close>, \<^verbatim>\<open>digitalRead\<close>, \<^verbatim>\<open>millis\<close>, the result of
  \<^verbatim>\<open>http.GET\<close>, the pending HTTP request) takes its value from the iteration's
  environment record.
\<close>

datatype pin = D1 | D2 | D3 | D4 | D5 | D6 | D7 | D8

datatype level = LOW | HIGH

datatype event =
    DigitalWrite pin level
  | Tone pin nat
  | NoTone pin
  | ServoWrite int
  | Delay "32 word"
  | DelayMicroseconds nat
  | SerialPrint string
  | SerialPrintln string
  | HttpGet string
  | ServerSend nat string string

text \<open>\<^verbatim>\<open>String(n)\<close> for an integer \<open>n\<close>: its decimal numeral.\<close>

fun decimal :: "nat \<Rightarrow> string" where
  "decimal n =
     (if n < 10 then [''0123456789'' ! n]
      else decimal (n div 10) @ [''0123456789'' ! (n mod 10)])"

declare decimal.simps [simp del]

definition String_int :: "int \<Rightarrow> string" where
  "String_int i = (if i < 0 then CHR ''-'' # decimal (nat (- i)) else decimal (nat i))"

definition node1_IP :: string where "node1_IP = ''YOUR_NODE1_IP''"
definition node2_IP :: string where "node2_IP = ''YOUR_NODE2_IP''"
definition node3_IP :: string where "node3_IP = ''YOUR_NODE3_IP''"

section \<open>Platform\<close>

text \<open>
  The three sketches (water dispenser, soap dispenser, tissue dispenser) run on ESP8266
  boards.  Two services of the Arduino core are taken as parameters of the model:
  \<^item> \<open>toInt\<close>: \<^verbatim>\<open>String::toInt()\<close>, the conversion applied to the \<^verbatim>\<open>stage\<close> argument;
  \<^item> \<open>flt\<close>: the rounding that every single-precision (\<^verbatim>\<open>float\<close>) operation applies to its
    exact result.
\<close>

record platform =
  toInt :: "string \<Rightarrow> int"
  flt :: "real \<Rightarrow> real"

text \<open>
  What the proofs use of single-precision rounding: it is monotone, and integers of
  magnitude up to \<open>2^24\<close> are representable, hence rounded to themselves.
\<close>

definition rounding :: "(real \<Rightarrow> real) \<Rightarrow> bool" where
  "rounding r \<longleftrightarrow> mono r \<and> (\<forall>n::int. \<bar>n\<bar> \<le> 16777216 \<longrightarrow> r (of_int n) = of_int n)"

text \<open>
  A reference platform on which the model runs on concrete inputs: arithmetic without
  rounding error, and the conversion of \<^verbatim>\<open>atol\<close> (leading white space, an optional sign,
  then decimal digits up to the first other character; 0 when there is no digit).
\<close>

definition isspace :: "char \<Rightarrow> bool" where
  "isspace c \<longleftrightarrow> of_char c \<in> {9, 10, 11, 12, 13, 32 :: nat}"

definition isdigit :: "char \<Rightarrow> bool" where
  "isdigit c \<longleftrightarrow> 48 \<le> (of_char c :: nat) \<and> (of_char c :: nat) \<le> 57"

fun digits_value :: "int \<Rightarrow> string \<Rightarrow> int" where
  "digits_value acc [] = acc"
| "digits_value acc (c # cs) =
     (if isdigit c then digits_value (acc * 10 + (of_char c - 48)) cs else acc)"

definition atol :: "string \<Rightarrow> int" where
  "atol str =
     (case dropWhile isspace str of
        [] \<Rightarrow> 0
      | c # cs \<Rightarrow>
          if c = CHR ''-'' then - digits_value 0 cs
          else if c = CHR ''+'' then digits_value 0 cs
          else digits_value 0 (c # cs))"

definition reference_platform :: platform where
  "reference_platform = \<lparr>toInt = atol, flt = (\<lambda>x. x)\<rparr>"

section \<open>Level percentage\<close>

definition containerHeight :: real where
  "containerHeight = 13.0"

text \<open>
  \<^verbatim>\<open>float waterLevel = (1 - (sensorDistance / containerHeight)) * 100;\<close>
  \<^verbatim>\<open>return (waterLevel < 0) ? 0 : (waterLevel > 100) ? 100 : waterLevel;\<close>
  The integer argument is converted to \<^verbatim>\<open>float\<close>, and the division, the subtraction and
  the multiplication each round.
\<close>

definition getWaterLevelPercentage :: "platform \<Rightarrow> int \<Rightarrow> real" where
  "getWaterLevelPercentage P sensorDistance =
     (let waterLevel =
            flt P (flt P (1 - flt P (flt P (of_int sensorDistance) / containerHeight)) * 100)
      in if waterLevel < 0 then 0 else if waterLevel > 100 then 100 else waterLevel)"

definition getSoapLevelPercentage :: "platform \<Rightarrow> int \<Rightarrow> real" where
  "getSoapLevelPercentage P sensorDistance =
     (let waterLevel =
            flt P (flt P (1 - flt P (flt P (of_int sensorDistance) / containerHeight)) * 100)
      in if waterLevel < 0 then 0 else if waterLevel > 100 then 100 else waterLevel)"

text \<open>The value of \<^verbatim>\<open>waterLevel\<close> before it is clamped.\<close>

definition unclamped :: "platform \<Rightarrow> int \<Rightarrow> real" where
  "unclamped P d = flt P (flt P (1 - flt P (flt P (of_int d) / containerHeight)) * 100)"

section \<open>Node state and requests\<close>

text \<open>
  The global variables.  Every sketch has \<^verbatim>\<open>processStage\<close>; the soap sketch adds
  \<^verbatim>\<open>distance1\<close>, \<^verbatim>\<open>pumpRunning\<close> and \<^verbatim>\<open>pumpStartTime\<close>; the water sketch has those and
  \<^verbatim>\<open>distance2\<close>; the tissue sketch has \<^verbatim>\<open>hasRotated\<close>, \<^verbatim>\<open>buzzerActive\<close> and
  \<^verbatim>\<open>buzzerStartTime\<close>.  \<^verbatim>\<open>int\<close> variables are integers (the sketches do no arithmetic on
  them), \<^verbatim>\<open>unsigned long\<close> times are 32-bit words.
\<close>

record node =
  processStage :: int
  trace :: "event list"

record soap = node +
  distance1 :: int
  pumpRunning :: bool
  pumpStartTime :: "32 word"

record water = soap +
  distance2 :: int

record tissue = node +
  hasRotated :: bool
  buzzerActive :: bool
  buzzerStartTime :: "32 word"

definition emit :: "event \<Rightarrow> 'a node_scheme \<Rightarrow> 'a node_scheme" where
  "emit ev s = s\<lparr>trace := trace s @ [ev]\<rparr>"

definition emits :: "event list \<Rightarrow> 'a node_scheme \<Rightarrow> 'a node_scheme" where
  "emits evs s = s\<lparr>trace := trace s @ evs\<rparr>"

text \<open>
  The request that \<^verbatim>\<open>server.handleClient()\<close> finds pending, if any: \<^verbatim>\<open>GET /status\<close>, or
  \<^verbatim>\<open>GET /update_stage\<close> with its query arguments.  (The dashboard route \<^verbatim>\<open>/\<close> renders
  HTML from the same variables and assigns none of them; it is not represented.)
\<close>

datatype request = GET_status | GET_update_stage "string \<rightharpoonup> string"

definition hasArg :: "(string \<rightharpoonup> string) \<Rightarrow> string \<Rightarrow> bool" where
  "hasArg args name \<longleftrightarrow> args name \<noteq> None"

definition arg :: "(string \<rightharpoonup> string) \<Rightarrow> string \<Rightarrow> string" where
  "arg args name = (case args name of Some v \<Rightarrow> v | None \<Rightarrow> [])"

text \<open>
  What one iteration reads from outside: the pending request; \<open>millis1\<close>, the value that
  \<^verbatim>\<open>millis()\<close> returns where a start time is recorded (\<^verbatim>\<open>pumpStartTime\<close>,
  \<^verbatim>\<open>buzzerStartTime\<close>); \<open>millis2\<close>, the value it returns in the elapsed-time check at the end
  of the iteration; and the results of the first and the second \<^verbatim>\<open>http.GET()\<close>.  The soap and water nodes also read echo pulse widths
  (\<^verbatim>\<open>pulseIn\<close>, 0 on timeout); the tissue node reads the microswitch, once in the status
  handler and up to twice in the loop body.
\<close>

record env =
  request :: "request option"
  millis1 :: "32 word"
  millis2 :: "32 word"
  httpResponseCode1 :: int
  httpResponseCode2 :: int

record soap_env = env +
  pulse1 :: int

record water_env = soap_env +
  pulse2 :: int

record tissue_env = env +
  switch0 :: level
  switch1 :: level
  switch2 :: level

section \<open>Handlers and helpers shared by the sketches\<close>

text \<open>\<^verbatim>\<open>updateStage()\<close>, the same text in the three sketches.\<close>

definition updateStage :: "platform \<Rightarrow> (string \<rightharpoonup> string) \<Rightarrow> 'a node_scheme \<Rightarrow> 'a node_scheme" where
  "updateStage P args s =
     (if hasArg args ''stage'' then
        (let s = s\<lparr>processStage := toInt P (arg args ''stage'')\<rparr>;
             s = emit (SerialPrint ''Received processStage: '') s;
             s = emit (SerialPrintln (String_int (processStage s))) s
         in emit (ServerSend 200 ''text/plain'' ''Stage Updated'') s)
      else emit (ServerSend 400 ''text/plain'' ''Missing stage data'') s)"

text \<open>
  \<^verbatim>\<open>getDistance(trigPin, echoPin)\<close>, the same text in the water and soap sketches; \<open>pulse\<close> is
  what \<^verbatim>\<open>pulseIn(echoPin, HIGH, 30000)\<close> returns.  The centimetre value is the truncation of
  \<^verbatim>\<open>(duration * 0.034) / 2\<close>, written here with exact arithmetic; the theorems below depend
  on the value only through the timeout branch and through readings given as hypotheses.
\<close>

definition getDistance :: "pin \<Rightarrow> pin \<Rightarrow> int \<Rightarrow> 'a node_scheme \<Rightarrow> int \<times> 'a node_scheme" where
  "getDistance trigPin echoPin pulse s =
     (let s = emit (DigitalWrite trigPin LOW) s;
          s = emit (DelayMicroseconds 2) s;
          s = emit (DigitalWrite trigPin HIGH) s;
          s = emit (DelayMicroseconds 10) s;
          s = emit (DigitalWrite trigPin LOW) s;
          duration = pulse
      in (if duration > 0 then \<lfloor>(real_of_int duration * 0.034) / 2\<rfloor> else - 1, s))"

text \<open>The value that \<open>getDistance\<close> returns, as a function of the pulse width alone.\<close>

definition echo_cm :: "int \<Rightarrow> int" where
  "echo_cm pulse = (if pulse > 0 then \<lfloor>(real_of_int pulse * 0.034) / 2\<rfloor> else - 1)"

section \<open>Water dispenser\<close>

definition water_relay :: pin where "water_relay = D1"
definition water_blueLed :: pin where "water_blueLed = D5"
definition water_redLed :: pin where "water_redLed = D3"
definition water_buzzer :: pin where "water_buzzer = D2"
definition water_trig1 :: pin where "water_trig1 = D4"
definition water_echo1 :: pin where "water_echo1 = D8"
definition water_trig2 :: pin where "water_trig2 = D6"
definition water_echo2 :: pin where "water_echo2 = D7"

text \<open>The initialisers of the globals.\<close>

definition water_init :: water where
  "water_init = \<lparr>processStage = 0, trace = [], distance1 = 0, pumpRunning = False,
     pumpStartTime = 0, distance2 = 0\<rparr>"

definition water_serveStatus :: "water \<Rightarrow> water" where
  \<open>water_serveStatus s =
     (let json = ''{'';
          json = json @ ''"water_level":'' @ String_int (distance1 s) @ '','';
          json = json @ ''"hand_distance":'' @ String_int (distance2 s) @ '','';
          json = json @ ''"pump_running":'' @ (if pumpRunning s then ''true'' else ''false'') @ '','';
          json = json @ ''"process_stage":'' @ String_int (processStage s);
          json = json @ ''}''
      in emit (ServerSend 200 ''application/json'' json) s)\<close>

definition water_handleClient :: "platform \<Rightarrow> request option \<Rightarrow> water \<Rightarrow> water" where
  "water_handleClient P req s =
     (case req of
        None \<Rightarrow> s
      | Some GET_status \<Rightarrow> water_serveStatus s
      | Some (GET_update_stage args) \<Rightarrow> updateStage P args s)"

text \<open>\<^verbatim>\<open>sendCompletionSignal()\<close> of the water sketch.\<close>

definition water_sendCompletionSignal :: "water_env \<Rightarrow> water \<Rightarrow> water" where
  "water_sendCompletionSignal e s =
     (if processStage s = 0 then
        (let serverPath1 = ''http://'' @ node2_IP @ ''/update_stage?stage=1'';
             s = emit (SerialPrintln ''Sending signal to Soap Dispenser (Node 2)...'') s;
             s = emit (HttpGet serverPath1) s;
             s = (if httpResponseCode1 e > 0
                  then emit (SerialPrintln (''Node 2 Response: '' @ String_int (httpResponseCode1 e))) s
                  else emit (SerialPrintln ''Error sending request to Node 2.'') s);
             serverPath2 = ''http://'' @ node3_IP @ ''/update_stage?stage=1'';
             s = emit (SerialPrintln ''Sending signal to Tissue Dispenser (Node 3)...'') s;
             s = emit (HttpGet serverPath2) s
         in if httpResponseCode2 e > 0
            then emit (SerialPrintln (''Node 3 Response: '' @ String_int (httpResponseCode2 e))) s
            else emit (SerialPrintln ''Error sending request to Node 3.'') s)
      else if processStage s = 2 then
        (let serverPath3 = ''http://'' @ node2_IP @ ''/update_stage?stage=3'';
             s = emit (SerialPrintln ''Sending signal to Soap Dispenser (Node 2)...'') s;
             s = emit (HttpGet serverPath3) s;
             s = (if httpResponseCode1 e > 0
                  then emit (SerialPrintln (''Node 2 Response: '' @ String_int (httpResponseCode1 e))) s
                  else emit (SerialPrintln ''Error sending request to Node 2.'') s);
             serverPath4 = ''http://'' @ node3_IP @ ''/update_stage?stage=3'';
             s = emit (SerialPrintln ''Sending signal to Tissue Dispenser (Node 3)...'') s;
             s = emit (HttpGet serverPath4) s
         in if httpResponseCode2 e > 0
            then emit (SerialPrintln (''Node 3 Response: '' @ String_int (httpResponseCode2 e))) s
            else emit (SerialPrintln ''Error sending request to Node 3.'') s)
      else s)"

text \<open>
  \<^verbatim>\<open>loop()\<close> of the water sketch, in its three parts: sampling (the two distance
  measurements and the low-level LED), the block that switches the pump on, and the block
  that switches it off after 5 seconds.
\<close>

definition water_sample :: "platform \<Rightarrow> water_env \<Rightarrow> water \<Rightarrow> water" where
  "water_sample P e s =
     (let (d, s) = getDistance water_trig1 water_echo1 (pulse1 e) s;
          s = s\<lparr>distance1 := d\<rparr>;
          s = emit (Delay 50) s;
          (d, s) = getDistance water_trig2 water_echo2 (pulse2 e) s;
          s = s\<lparr>distance2 := d\<rparr>
      in emit (DigitalWrite water_redLed
                 (if getWaterLevelPercentage P (distance1 s) < 20 then HIGH else LOW)) s)"

definition water_activate :: "water_env \<Rightarrow> water \<Rightarrow> water" where
  "water_activate e s =
     (if ((processStage s = 0 \<and> distance2 s < 10) \<or> processStage s = 2) \<and> \<not> pumpRunning s then
        (let s = (if processStage s = 2 then emit (Delay 5000) s else s);
             s = emit (SerialPrintln ''Turning ON Water Pump...'') s;
             s = emit (DigitalWrite water_relay LOW) s;
             s = emit (DigitalWrite water_blueLed HIGH) s;
             s = emit (Tone water_buzzer 1000) s;
             s = s\<lparr>pumpRunning := True\<rparr>
         in s\<lparr>pumpStartTime := millis1 e\<rparr>)
      else s)"

definition water_deactivate :: "water_env \<Rightarrow> water \<Rightarrow> water" where
  "water_deactivate e s =
     (if pumpRunning s \<and> millis2 e - pumpStartTime s \<ge> 5000 then
        (let s = emit (SerialPrintln ''Turning OFF pump.'') s;
             s = emit (DigitalWrite water_relay HIGH) s;
             s = emit (DigitalWrite water_blueLed LOW) s;
             s = emit (NoTone water_buzzer) s;
             s = s\<lparr>pumpRunning := False\<rparr>;
             s = (if processStage s = 0 then
                    (let s = water_sendCompletionSignal e s in s\<lparr>processStage := 1\<rparr>)
                  else if processStage s = 2 then
                    (let s = water_sendCompletionSignal e s in s\<lparr>processStage := 3\<rparr>)
                  else s)
         in emit (Delay 500) s)
      else s)"

definition water_loop :: "platform \<Rightarrow> water_env \<Rightarrow> water \<Rightarrow> water" where
  "water_loop P e s =
     (let s = water_handleClient P (request e) s;
          s = water_sample P e s;
          s = water_activate e s
      in water_deactivate e s)"

text \<open>The core calls \<^verbatim>\<open>loop()\<close> again and again: one call per environment of the list.\<close>

fun water_run :: "platform \<Rightarrow> water_env list \<Rightarrow> water \<Rightarrow> water" where
  "water_run P [] s = s"
| "water_run P (e # es) s = water_run P es (water_loop P e s)"

section \<open>Soap dispenser\<close>

definition soap_relay :: pin where "soap_relay = D1"
definition soap_yellowLed :: pin where "soap_yellowLed = D5"
definition soap_redLed :: pin where "soap_redLed = D3"
definition soap_buzzer :: pin where "soap_buzzer = D2"
definition soap_trig1 :: pin where "soap_trig1 = D4"
definition soap_echo1 :: pin where "soap_echo1 = D8"

definition soap_init :: soap where
  "soap_init = \<lparr>processStage = 0, trace = [], distance1 = 0, pumpRunning = False,
     pumpStartTime = 0\<rparr>"

definition soap_serveStatus :: "soap \<Rightarrow> soap" where
  \<open>soap_serveStatus s =
     (let json = ''{'';
          json = json @ ''"soap_level":'' @ String_int (distance1 s) @ '','';
          json = json @ ''"pump_running":'' @ (if pumpRunning s then ''true'' else ''false'') @ '','';
          json = json @ ''"process_stage":'' @ String_int (processStage s);
          json = json @ ''}''
      in emit (ServerSend 200 ''application/json'' json) s)\<close>

definition soap_handleClient :: "platform \<Rightarrow> request option \<Rightarrow> soap \<Rightarrow> soap" where
  "soap_handleClient P req s =
     (case req of
        None \<Rightarrow> s
      | Some GET_status \<Rightarrow> soap_serveStatus s
      | Some (GET_update_stage args) \<Rightarrow> updateStage P args s)"

text \<open>\<^verbatim>\<open>sendCompletionSignal()\<close> of the soap sketch.\<close>

definition soap_sendCompletionSignal :: "soap_env \<Rightarrow> soap \<Rightarrow> soap" where
  "soap_sendCompletionSignal e s =
     (let serverPath1 = ''http://'' @ node1_IP @ ''/update_stage?stage=2'';
          s = emit (SerialPrintln ''Sending signal to Water Dispenser (Node 1)...'') s;
          s = emit (HttpGet serverPath1) s;
          s = (if httpResponseCode1 e > 0
               then emit (SerialPrintln (''Node 1 Response: '' @ String_int (httpResponseCode1 e))) s
               else emit (SerialPrintln ''Error sending request to Node 1.'') s);
          serverPath2 = ''http://'' @ node3_IP @ ''/update_stage?stage=2'';
          s = emit (SerialPrintln ''Sending signal to Tissue Dispenser (Node 3)...'') s;
          s = emit (HttpGet serverPath2) s
      in if httpResponseCode2 e > 0
         then emit (SerialPrintln (''Node 3 Response: '' @ String_int (httpResponseCode2 e))) s
         else emit (SerialPrintln ''Error sending request to Node 3.'') s)"

text \<open>\<^verbatim>\<open>loop()\<close> of the soap sketch, in the same three parts.\<close>

definition soap_sample :: "platform \<Rightarrow> soap_env \<Rightarrow> soap \<Rightarrow> soap" where
  "soap_sample P e s =
     (let (d, s) = getDistance soap_trig1 soap_echo1 (pulse1 e) s;
          s = s\<lparr>distance1 := d\<rparr>;
          s = emit (Delay 50) s
      in emit (DigitalWrite soap_redLed
                 (if getSoapLevelPercentage P (distance1 s) < 20 then HIGH else LOW)) s)"

definition soap_activate :: "soap_env \<Rightarrow> soap \<Rightarrow> soap" where
  "soap_activate e s =
     (if processStage s = 1 \<and> \<not> pumpRunning s then
        (let s = emit (SerialPrintln ''Turning ON Soap Dispenser...'') s;
             s = emit (DigitalWrite soap_relay LOW) s;
             s = emit (DigitalWrite soap_yellowLed HIGH) s;
             s = emit (Tone soap_buzzer 500) s;
             s = s\<lparr>pumpRunning := True\<rparr>
         in s\<lparr>pumpStartTime := millis1 e\<rparr>)
      else s)"

definition soap_deactivate :: "soap_env \<Rightarrow> soap \<Rightarrow> soap" where
  "soap_deactivate e s =
     (if pumpRunning s \<and> millis2 e - pumpStartTime s \<ge> 2000 then
        (let s = emit (SerialPrintln ''2 seconds passed. Turning OFF Soap Dispenser.'') s;
             s = emit (DigitalWrite soap_relay HIGH) s;
             s = emit (DigitalWrite soap_yellowLed LOW) s;
             s = emit (NoTone soap_buzzer) s;
             s = s\<lparr>pumpRunning := False\<rparr>;
             s = soap_sendCompletionSignal e s;
             s = s\<lparr>processStage := 2\<rparr>
         in emit (Delay 500) s)
      else s)"

definition soap_loop :: "platform \<Rightarrow> soap_env \<Rightarrow> soap \<Rightarrow> soap" where
  "soap_loop P e s =
     (let s = soap_handleClient P (request e) s;
          s = soap_sample P e s;
          s = soap_activate e s
      in soap_deactivate e s)"

fun soap_run :: "platform \<Rightarrow> soap_env list \<Rightarrow> soap \<Rightarrow> soap" where
  "soap_run P [] s = s"
| "soap_run P (e # es) s = soap_run P es (soap_loop P e s)"

section \<open>Tissue dispenser\<close>

definition tissue_greenLed :: pin where "tissue_greenLed = D2"
definition tissue_redLed :: pin where "tissue_redLed = D3"
definition tissue_buzzer :: pin where "tissue_buzzer = D5"
definition tissue_servoPin :: pin where "tissue_servoPin = D1"
definition tissue_microswitch :: pin where "tissue_microswitch = D6"

definition tissue_init :: tissue where
  "tissue_init = \<lparr>processStage = 0, trace = [], hasRotated = False, buzzerActive = False,
     buzzerStartTime = 0\<rparr>"

definition tissue_serveStatus :: "tissue_env \<Rightarrow> tissue \<Rightarrow> tissue" where
  \<open>tissue_serveStatus e s =
     (let json = ''{'';
          json = json @ ''"process_stage":'' @ String_int (processStage s) @ '','';
          json = json @ ''"microswitch":'' @ (if switch0 e = HIGH then ''true'' else ''false'') @ '','';
          json = json @ ''"servo_rotated":'' @ (if hasRotated s then ''true'' else ''false'') @ '','';
          json = json @ ''}''
      in emit (ServerSend 200 ''application/json'' json) s)\<close>

definition tissue_handleClient :: "platform \<Rightarrow> tissue_env \<Rightarrow> tissue \<Rightarrow> tissue" where
  "tissue_handleClient P e s =
     (case request e of
        None \<Rightarrow> s
      | Some GET_status \<Rightarrow> tissue_serveStatus e s
      | Some (GET_update_stage args) \<Rightarrow> updateStage P args s)"

text \<open>
  The two \<^verbatim>\<open>for\<close> loops of \<^verbatim>\<open>rotateServoSlowly\<close>: from \<open>angle\<close> on, in steps of 2 up (down)
  to \<open>toAngle\<close>, each step a \<^verbatim>\<open>myServo.write(angle)\<close> followed by \<^verbatim>\<open>delay(stepDelay)\<close>.
  The loop bodies touch no variable, so each loop is the list of its outputs.
\<close>

function sweep_up :: "int \<Rightarrow> int \<Rightarrow> int \<Rightarrow> event list" where
  "sweep_up angle toAngle stepDelay =
     (if angle \<le> toAngle
      then ServoWrite angle # Delay (word_of_int stepDelay) # sweep_up (angle + 2) toAngle stepDelay
      else [])"
  by pat_completeness auto
termination
  by (relation "measure (\<lambda>(angle, toAngle, stepDelay). nat (toAngle + 1 - angle))") auto

function sweep_down :: "int \<Rightarrow> int \<Rightarrow> int \<Rightarrow> event list" where
  "sweep_down angle toAngle stepDelay =
     (if angle \<ge> toAngle
      then ServoWrite angle # Delay (word_of_int stepDelay) # sweep_down (angle - 2) toAngle stepDelay
      else [])"
  by pat_completeness auto
termination
  by (relation "measure (\<lambda>(angle, toAngle, stepDelay). nat (angle + 1 - toAngle))") auto

declare sweep_up.simps [simp del]
declare sweep_down.simps [simp del]

definition rotateServoSlowly :: "int \<Rightarrow> int \<Rightarrow> int \<Rightarrow> tissue \<Rightarrow> tissue" where
  "rotateServoSlowly fromAngle toAngle stepDelay s =
     (let s = (if fromAngle < toAngle then emits (sweep_up fromAngle toAngle stepDelay) s
               else emits (sweep_down fromAngle toAngle stepDelay) s);
          s = s\<lparr>hasRotated := True\<rparr>
      in emit (SerialPrintln ''Servo rotation completed.'') s)"

definition sendResetSignal :: "tissue_env \<Rightarrow> tissue \<Rightarrow> tissue" where
  "sendResetSignal e s =
     (let serverPath1 = ''http://'' @ node1_IP @ ''/update_stage?stage=0'';
          s = emit (SerialPrintln ''Resetting processStage to 0 (Restarting Process)...'') s;
          s = emit (HttpGet serverPath1) s;
          s = (if httpResponseCode1 e > 0
               then emit (SerialPrintln (''Node 1 Response: '' @ String_int (httpResponseCode1 e))) s
               else emit (SerialPrintln ''Error resetting.'') s);
          serverPath2 = ''http://'' @ node2_IP @ ''/update_stage?stage=0'';
          s = emit (SerialPrintln ''Resetting processStage to 0 (Restarting Process)...'') s;
          s = emit (HttpGet serverPath2) s
      in if httpResponseCode2 e > 0
         then emit (SerialPrintln (''Node 2 Response: '' @ String_int (httpResponseCode2 e))) s
         else emit (SerialPrintln ''Error resetting.'') s)"

text \<open>
  \<^verbatim>\<open>loop()\<close> of the tissue sketch.  \<open>tissue_dispense\<close> is the body of the
  \<^verbatim>\<open>else if (!hasRotated && digitalRead(microswitch) == LOW)\<close> branch, \<open>tissue_stopBuzzer\<close>
  the final \<^verbatim>\<open>if (buzzerActive && millis() - buzzerStartTime >= 200)\<close>.
\<close>

definition tissue_dispense :: "tissue_env \<Rightarrow> tissue \<Rightarrow> tissue" where
  "tissue_dispense e s =
     (let s = emit (Delay 200) s;
          s = emit (SerialPrintln ''Tissue OK.'') s;
          s = emit (DigitalWrite tissue_greenLed HIGH) s;
          s = emit (DigitalWrite tissue_redLed LOW) s;
          s = (if \<not> buzzerActive s then
                 (let s = emit (Tone tissue_buzzer 3000) s;
                      s = s\<lparr>buzzerActive := True\<rparr>
                  in s\<lparr>buzzerStartTime := millis1 e\<rparr>)
               else s);
          s = rotateServoSlowly 90 180 40 s;
          s = emit (Delay 1000) s;
          s = emit (ServoWrite 90) s
      in if hasRotated s then
           (let s = emit (DigitalWrite tissue_greenLed LOW) s;
                s = sendResetSignal e s;
                s = s\<lparr>processStage := 0\<rparr>
            in s\<lparr>hasRotated := False\<rparr>)
         else s)"

definition tissue_stopBuzzer :: "tissue_env \<Rightarrow> tissue \<Rightarrow> tissue" where
  "tissue_stopBuzzer e s =
     (if buzzerActive s \<and> millis2 e - buzzerStartTime s \<ge> 200 then
        (let s = emit (NoTone tissue_buzzer) s;
             s = s\<lparr>buzzerActive := False\<rparr>
         in emit (SerialPrintln ''Buzzer OFF after 200ms.'') s)
      else s)"

definition tissue_loop :: "platform \<Rightarrow> tissue_env \<Rightarrow> tissue \<Rightarrow> tissue" where
  "tissue_loop P e s =
     (let s = tissue_handleClient P e s
      in if processStage s = 3 then
           (let s = (if switch1 e = HIGH then
                       (let s = emit (SerialPrintln ''Tissue is OUT!'') s;
                            s = emit (DigitalWrite tissue_redLed HIGH) s;
                            s = emit (DigitalWrite tissue_greenLed LOW) s
                        in emit (NoTone tissue_buzzer) s)
                     else if \<not> hasRotated s \<and> switch2 e = LOW then tissue_dispense e s
                     else s)
            in tissue_stopBuzzer e s)
         else s)"

section \<open>Observations on traces and response bodies\<close>

text \<open>The URLs requested by the \<^verbatim>\<open>http.GET()\<close> calls of a trace, in order.\<close>

fun http_gets :: "event list \<Rightarrow> string list" where
  "http_gets [] = []"
| "http_gets (HttpGet url # evs) = url # http_gets evs"
| "http_gets (ev # evs) = http_gets evs"

text \<open>
  \<open>tone_ms p evs\<close>: the milliseconds of \<^verbatim>\<open>delay()\<close> that the program sits through between
  the first \<^verbatim>\<open>tone(p, _)\<close> of the trace and the \<^verbatim>\<open>noTone(p)\<close> that follows it (or the end
  of the trace), a lower bound on how long the tone sounds.
\<close>

fun delay_until_noTone :: "pin \<Rightarrow> event list \<Rightarrow> nat" where
  "delay_until_noTone p [] = 0"
| "delay_until_noTone p (NoTone q # evs) = (if q = p then 0 else delay_until_noTone p evs)"
| "delay_until_noTone p (Delay d # evs) = unat d + delay_until_noTone p evs"
| "delay_until_noTone p (ev # evs) = delay_until_noTone p evs"

fun tone_ms :: "pin \<Rightarrow> event list \<Rightarrow> nat" where
  "tone_ms p [] = 0"
| "tone_ms p (Tone q f # evs) = (if q = p then delay_until_noTone p evs else tone_ms p evs)"
| "tone_ms p (ev # evs) = tone_ms p evs"

text \<open>
  A recogniser for the JSON texts that the status handlers are meant to produce: an object
  \<^verbatim>\<open>{"key":value,...}\<close> without white space whose values are integers, \<^verbatim>\<open>true\<close> or
  \<^verbatim>\<open>false\<close>.  \<open>json_object\<close> returns the members in order, or \<open>None\<close> when the text is
  not such an object.
\<close>

datatype jvalue = JNumber int | JBool bool

definition json_string :: "string \<Rightarrow> (string \<times> string) option" where
  "json_string str =
     (case str of
        [] \<Rightarrow> None
      | c # cs \<Rightarrow>
          if c = CHR 0x22 then
            (case dropWhile (\<lambda>x. x \<noteq> CHR 0x22) cs of
               [] \<Rightarrow> None
             | _ # rest \<Rightarrow> Some (takeWhile (\<lambda>x. x \<noteq> CHR 0x22) cs, rest))
          else None)"

definition json_value :: "string \<Rightarrow> (jvalue \<times> string) option" where
  "json_value str =
     (if take 4 str = ''true'' then Some (JBool True, drop 4 str)
      else if take 5 str = ''false'' then Some (JBool False, drop 5 str)
      else
        (let body = (case str of [] \<Rightarrow> [] | c # cs \<Rightarrow> if c = CHR ''-'' then cs else c # cs);
             ds = takeWhile isdigit body
         in if ds = [] then None
            else Some (JNumber (if body = str then digits_value 0 ds else - digits_value 0 ds),
                       dropWhile isdigit body)))"

fun json_members :: "nat \<Rightarrow> string \<Rightarrow> (string \<times> jvalue) list option" where
  "json_members 0 str = None"
| "json_members (Suc n) str =
     (case json_string str of
        None \<Rightarrow> None
      | Some (k, r) \<Rightarrow>
          (case r of
             [] \<Rightarrow> None
           | c # r1 \<Rightarrow>
               if c = CHR '':'' then
                 (case json_value r1 of
                    None \<Rightarrow> None
                  | Some (v, r2) \<Rightarrow>
                      if r2 = ''}'' then Some [(k, v)]
                      else (case r2 of
                              [] \<Rightarrow> None
                            | d # r3 \<Rightarrow>
                                if d = CHR '','' then map_option ((#) (k, v)) (json_members n r3)
                                else None))
               else None))"

definition json_object :: "string \<Rightarrow> (string \<times> jvalue) list option" where
  "json_object str =
     (case str of
        [] \<Rightarrow> None
      | c # r \<Rightarrow>
          if c = CHR ''{'' then (if r = ''}'' then Some [] else json_members (length r) r)
          else None)"

text \<open>The body of the last \<^verbatim>\<open>server.send\<close> of a trace, with its status code.\<close>

fun last_response :: "event list \<Rightarrow> (nat \<times> string) option" where
  "last_response [] = None"
| "last_response (ev # evs) =
     (case last_response evs of
        Some r \<Rightarrow> Some r
      | None \<Rightarrow> (case ev of ServerSend code ctype body \<Rightarrow> Some (code, body) | _ \<Rightarrow> None))"

section \<open>Example inputs\<close>

text \<open>
  Environments without a pending request in which both \<^verbatim>\<open>http.GET()\<close> calls are answered
  with code 200; the arguments are the two clock readings and, for the water and soap
  nodes, the echo pulse widths in microseconds (300 us is 5 cm, 0 is a timeout).
\<close>

definition water_env_at :: "32 word \<Rightarrow> 32 word \<Rightarrow> int \<Rightarrow> int \<Rightarrow> water_env" where
  "water_env_at t1 t2 p1 p2 =
     \<lparr>request = None, millis1 = t1, millis2 = t2, httpResponseCode1 = 200,
      httpResponseCode2 = 200, pulse1 = p1, pulse2 = p2\<rparr>"

definition soap_env_at :: "32 word \<Rightarrow> 32 word \<Rightarrow> int \<Rightarrow> soap_env" where
  "soap_env_at t1 t2 p1 =
     \<lparr>request = None, millis1 = t1, millis2 = t2, httpResponseCode1 = 200,
      httpResponseCode2 = 200, pulse1 = p1\<rparr>"

definition tissue_env_at :: "32 word \<Rightarrow> 32 word \<Rightarrow> level \<Rightarrow> tissue_env" where
  "tissue_env_at t1 t2 sw =
     \<lparr>request = None, millis1 = t1, millis2 = t2, httpResponseCode1 = 200,
      httpResponseCode2 = 200, switch0 = sw, switch1 = sw, switch2 = sw\<rparr>"

section \<open>The level percentage\<close>

lemma rounding_mono: "rounding r \<Longrightarrow> x \<le> y \<Longrightarrow> r x \<le> r y"
  by (simp add: rounding_def mono_def)

lemma rounding_int: "rounding r \<Longrightarrow> \<bar>n\<bar> \<le> 16777216 \<Longrightarrow> r (of_int n) = of_int n"
  by (simp add: rounding_def)

lemma rounding_0: "rounding r \<Longrightarrow> r 0 = 0"
  using rounding_int [of r 0] by simp

lemma rounding_1: "rounding r \<Longrightarrow> r 1 = 1"
  using rounding_int [of r 1] by simp

lemma rounding_13: "rounding r \<Longrightarrow> r 13 = 13"
  using rounding_int [of r 13] by simp

lemma rounding_100: "rounding r \<Longrightarrow> r 100 = 100"
  using rounding_int [of r 100] by simp

lemma rounding_reference: "rounding (flt reference_platform)"
  by (simp add: rounding_def mono_def reference_platform_def)

lemma unclamped_antimono:
  assumes "rounding (flt P)" and "d \<le> d'"
  shows "unclamped P d' \<le> unclamped P d"
proof -
  note m = rounding_mono [OF assms(1)]
  have "flt P (of_int d) \<le> flt P (of_int d')"
    using assms(2) by (intro m) simp
  then have "flt P (flt P (of_int d) / containerHeight)
      \<le> flt P (flt P (of_int d') / containerHeight)"
    by (intro m) (simp add: containerHeight_def)
  then have "flt P (1 - flt P (flt P (of_int d') / containerHeight))
      \<le> flt P (1 - flt P (flt P (of_int d) / containerHeight))"
    by (intro m) simp
  then show ?thesis
    unfolding unclamped_def by (intro m) simp
qed

lemma unclamped_0: "rounding (flt P) \<Longrightarrow> unclamped P 0 = 100"
  by (simp add: unclamped_def rounding_0 rounding_1 rounding_100)

lemma unclamped_13: "rounding (flt P) \<Longrightarrow> unclamped P 13 = 0"
  by (simp add: unclamped_def rounding_0 rounding_1 rounding_13 containerHeight_def)

lemma water_percentage_unclamped:
  "getWaterLevelPercentage P d =
     (if unclamped P d < 0 then 0 else if unclamped P d > 100 then 100 else unclamped P d)"
  by (simp add: getWaterLevelPercentage_def unclamped_def Let_def)

lemma soap_percentage_water: "getSoapLevelPercentage P d = getWaterLevelPercentage P d"
  by (simp add: getSoapLevelPercentage_def getWaterLevelPercentage_def)

lemma water_percentage_range:
  "0 \<le> getWaterLevelPercentage P d \<and> getWaterLevelPercentage P d \<le> 100"
  by (simp add: water_percentage_unclamped)

lemma water_percentage_antimono:
  "rounding (flt P) \<Longrightarrow> d \<le> d' \<Longrightarrow> getWaterLevelPercentage P d' \<le> getWaterLevelPercentage P d"
  using unclamped_antimono [of P d d'] by (auto simp: water_percentage_unclamped)

lemma water_percentage_negative:
  "rounding (flt P) \<Longrightarrow> d < 0 \<Longrightarrow> getWaterLevelPercentage P d = 100"
  using unclamped_antimono [of P d 0] unclamped_0 [of P] by (auto simp: water_percentage_unclamped)

lemma water_percentage_beyond:
  "rounding (flt P) \<Longrightarrow> 13 \<le> d \<Longrightarrow> getWaterLevelPercentage P d = 0"
  using unclamped_antimono [of P 13 d] unclamped_13 [of P] by (auto simp: water_percentage_unclamped)

text \<open>
  Claim C1, as the spec states it, has the percentage of a negative distance (the \<open>-1\<close>
  that a sensor timeout yields) equal to 0.  On the code it is 100: the quotient is negative,
  \<^verbatim>\<open>waterLevel\<close> exceeds 100, and the second arm of the clamp returns 100.
\<close>

theorem percentage_of_sentinel_counterexample:
  "getWaterLevelPercentage reference_platform (- 1) = 100 \<and>
   getSoapLevelPercentage reference_platform (- 1) = 100 \<and>
   getWaterLevelPercentage reference_platform (- 1) \<noteq> 0"
  by (simp add: getWaterLevelPercentage_def getSoapLevelPercentage_def reference_platform_def
      containerHeight_def)

text \<open>
  Claim C1, amended.  Under any rounding of the \<^verbatim>\<open>float\<close> operations that is monotone and
  exact on small integers, \<^verbatim>\<open>getWaterLevelPercentage\<close> and \<^verbatim>\<open>getSoapLevelPercentage\<close> are
  the same function of the raw distance \<open>d\<close>; its value lies in \<open>[0, 100]\<close>; it is
  monotonically decreasing in \<open>d\<close>; it is 100 at \<open>d = 0\<close>, 0 at \<open>d = containerHeight = 13\<close>
  and at every larger \<open>d\<close>; and it is 100 (not 0) at every \<open>d < 0\<close>, the timeout sentinel
  included.
\<close>

theorem percentage_clamped_decreasing:
  assumes "rounding (flt P)"
  shows "(\<forall>d. getSoapLevelPercentage P d = getWaterLevelPercentage P d) \<and>
    (\<forall>d. 0 \<le> getWaterLevelPercentage P d \<and> getWaterLevelPercentage P d \<le> 100) \<and>
    (\<forall>d d'. d \<le> d' \<longrightarrow> getWaterLevelPercentage P d' \<le> getWaterLevelPercentage P d) \<and>
    getWaterLevelPercentage P 0 = 100 \<and>
    getWaterLevelPercentage P 13 = 0 \<and>
    (\<forall>d. 13 < d \<longrightarrow> getWaterLevelPercentage P d = 0) \<and>
    (\<forall>d. d < 0 \<longrightarrow> getWaterLevelPercentage P d = 100)"
proof -
  have "getWaterLevelPercentage P 0 = 100"
    using unclamped_0 [OF assms] by (simp add: water_percentage_unclamped)
  moreover have "getWaterLevelPercentage P 13 = 0"
    using unclamped_13 [OF assms] by (simp add: water_percentage_unclamped)
  ultimately show ?thesis
    using assms
    by (simp add: soap_percentage_water water_percentage_range water_percentage_antimono
        water_percentage_negative water_percentage_beyond)
qed

theorem percentage_clamped_decreasing_witness:
  "rounding (flt reference_platform) \<and>
   getSoapLevelPercentage reference_platform 5 = getWaterLevelPercentage reference_platform 5 \<and>
   getWaterLevelPercentage reference_platform 10 \<le> getWaterLevelPercentage reference_platform 3 \<and>
   getWaterLevelPercentage reference_platform 0 = 100 \<and>
   getWaterLevelPercentage reference_platform 13 = 0 \<and>
   getWaterLevelPercentage reference_platform 14 = 0 \<and>
   getWaterLevelPercentage reference_platform (- 1) = 100"
  using percentage_clamped_decreasing [OF rounding_reference] rounding_reference
  by simp

section \<open>The stage-update handler\<close>

lemma updateStage_missing:
  "args ''stage'' = None \<Longrightarrow>
   updateStage P args s =
     s\<lparr>trace := trace s @ [ServerSend 400 ''text/plain'' ''Missing stage data'']\<rparr>"
  by (simp add: updateStage_def hasArg_def emit_def)

lemma updateStage_present:
  "args ''stage'' = Some v \<Longrightarrow>
   updateStage P args s =
     s\<lparr>processStage := toInt P v,
       trace := trace s @ [SerialPrint ''Received processStage: '',
         SerialPrintln (String_int (toInt P v)),
         ServerSend 200 ''text/plain'' ''Stage Updated'']\<rparr>"
  by (simp add: updateStage_def hasArg_def arg_def emit_def Let_def)

lemma updateStage_twice:
  "(updateStage P args (updateStage P args s))\<lparr>trace := trace (updateStage P args s)\<rparr>
     = updateStage P args s"
  by (cases "args ''stage''") (simp_all add: updateStage_missing updateStage_present)

text \<open>
  Claim C3.  On each of the three nodes, whatever the current stage: a
  \<^verbatim>\<open>GET /update_stage\<close> request without a \<^verbatim>\<open>stage\<close> argument is answered with status 400 and
  changes nothing but the output trace (the stage in particular is unchanged); with the
  argument present, of value \<open>v\<close>, it is answered with status 200 and the stage becomes the
  integer that \<^verbatim>\<open>toInt\<close> makes of \<open>v\<close>, whatever that integer is.
\<close>

theorem update_stage_request:
  fixes w :: water and so :: soap and t :: tissue
  shows
    "(args ''stage'' = None \<longrightarrow>
        water_handleClient P (Some (GET_update_stage args)) w =
          w\<lparr>trace := trace w @ [ServerSend 400 ''text/plain'' ''Missing stage data'']\<rparr> \<and>
        soap_handleClient P (Some (GET_update_stage args)) so =
          so\<lparr>trace := trace so @ [ServerSend 400 ''text/plain'' ''Missing stage data'']\<rparr> \<and>
        tissue_handleClient P (e\<lparr>request := Some (GET_update_stage args)\<rparr>) t =
          t\<lparr>trace := trace t @ [ServerSend 400 ''text/plain'' ''Missing stage data'']\<rparr>) \<and>
     (\<forall>v. args ''stage'' = Some v \<longrightarrow>
        water_handleClient P (Some (GET_update_stage args)) w =
          w\<lparr>processStage := toInt P v,
            trace := trace w @ [SerialPrint ''Received processStage: '',
              SerialPrintln (String_int (toInt P v)),
              ServerSend 200 ''text/plain'' ''Stage Updated'']\<rparr> \<and>
        soap_handleClient P (Some (GET_update_stage args)) so =
          so\<lparr>processStage := toInt P v,
            trace := trace so @ [SerialPrint ''Received processStage: '',
              SerialPrintln (String_int (toInt P v)),
              ServerSend 200 ''text/plain'' ''Stage Updated'']\<rparr> \<and>
        tissue_handleClient P (e\<lparr>request := Some (GET_update_stage args)\<rparr>) t =
          t\<lparr>processStage := toInt P v,
            trace := trace t @ [SerialPrint ''Received processStage: '',
              SerialPrintln (String_int (toInt P v)),
              ServerSend 200 ''text/plain'' ''Stage Updated'']\<rparr>)"
  by (simp add: water_handleClient_def soap_handleClient_def tissue_handleClient_def
      updateStage_missing updateStage_present)

theorem update_stage_request_witness:
  "processStage (water_handleClient reference_platform
       (Some (GET_update_stage Map.empty)) (water_init\<lparr>processStage := 2\<rparr>)) = 2 \<and>
   last_response (trace (water_handleClient reference_platform
       (Some (GET_update_stage Map.empty)) (water_init\<lparr>processStage := 2\<rparr>)))
     = Some (400, ''Missing stage data'') \<and>
   processStage (soap_handleClient reference_platform
       (Some (GET_update_stage [''stage'' \<mapsto> ''-7''])) soap_init) = - 7 \<and>
   processStage (tissue_handleClient reference_platform
       ((tissue_env_at 0 0 LOW)\<lparr>request := Some (GET_update_stage [''stage'' \<mapsto> ''-7''])\<rparr>)
       tissue_init) = - 7 \<and>
   last_response (trace (tissue_handleClient reference_platform
       ((tissue_env_at 0 0 LOW)\<lparr>request := Some (GET_update_stage [''stage'' \<mapsto> ''-7''])\<rparr>)
       tissue_init))
     = Some (200, ''Stage Updated'')"
proof -
  have none: "(Map.empty :: string \<rightharpoonup> string) ''stage'' = None"
    by simp
  have some: "[''stage'' \<mapsto> ''-7''] ''stage'' = Some ''-7''"
    by simp
  have conv: "toInt reference_platform ''-7'' = - 7"
    by (simp add: reference_platform_def atol_def isspace_def isdigit_def)
  show ?thesis
    using update_stage_request [of Map.empty reference_platform "water_init\<lparr>processStage := 2\<rparr>"
        soap_init "tissue_env_at 0 0 LOW" tissue_init]
      update_stage_request [of "[''stage'' \<mapsto> ''-7'']" reference_platform water_init
        soap_init "tissue_env_at 0 0 LOW" tissue_init]
      none some conv
    by (simp add: water_init_def tissue_init_def)
qed

text \<open>
  Claim C7.  On each of the three nodes, in every state and for every request: handling the
  same \<^verbatim>\<open>GET /update_stage\<close> request a second time leaves every variable of the node as the
  first handling left it.  (Only the output trace differs: the second response is sent
  too.)
\<close>

theorem update_stage_idempotent:
  fixes w :: water and so :: soap and t :: tissue
  shows
    "(updateStage P args (updateStage P args w))\<lparr>trace := trace (updateStage P args w)\<rparr>
       = updateStage P args w \<and>
     (updateStage P args (updateStage P args so))\<lparr>trace := trace (updateStage P args so)\<rparr>
       = updateStage P args so \<and>
     (updateStage P args (updateStage P args t))\<lparr>trace := trace (updateStage P args t)\<rparr>
       = updateStage P args t"
  by (simp add: updateStage_twice)

section \<open>The water dispenser's loop\<close>

lemma getDistance_eq:
  "getDistance trigPin echoPin pulse s =
     (echo_cm pulse,
      s\<lparr>trace := trace s @ [DigitalWrite trigPin LOW, DelayMicroseconds 2,
         DigitalWrite trigPin HIGH, DelayMicroseconds 10, DigitalWrite trigPin LOW]\<rparr>)"
  by (simp add: getDistance_def echo_cm_def emit_def Let_def)

lemma water_handleClient_None: "water_handleClient P None s = s"
  by (simp add: water_handleClient_def)

lemma water_sample_eq:
  "water_sample P e s =
     s\<lparr>distance1 := echo_cm (pulse1 e), distance2 := echo_cm (pulse2 e),
       trace := trace s @
         [DigitalWrite water_trig1 LOW, DelayMicroseconds 2, DigitalWrite water_trig1 HIGH,
          DelayMicroseconds 10, DigitalWrite water_trig1 LOW, Delay 50,
          DigitalWrite water_trig2 LOW, DelayMicroseconds 2, DigitalWrite water_trig2 HIGH,
          DelayMicroseconds 10, DigitalWrite water_trig2 LOW,
          DigitalWrite water_redLed
            (if getWaterLevelPercentage P (echo_cm (pulse1 e)) < 20 then HIGH else LOW)]\<rparr>"
  by (simp add: water_sample_def getDistance_eq emit_def Let_def)

lemma water_sample_fields:
  "processStage (water_sample P e s) = processStage s"
  "pumpRunning (water_sample P e s) = pumpRunning s"
  "pumpStartTime (water_sample P e s) = pumpStartTime s"
  "distance2 (water_sample P e s) = echo_cm (pulse2 e)"
  by (simp_all add: water_sample_eq)

lemma water_sample_pulse2:
  "water_sample P (e\<lparr>pulse2 := p\<rparr>) s = (water_sample P e s)\<lparr>distance2 := echo_cm p\<rparr>"
  by (simp add: water_sample_eq)

lemma fold_water_sample_fields:
  "processStage (fold (water_sample P) es s) = processStage s"
  "pumpRunning (fold (water_sample P) es s) = pumpRunning s"
  "pumpStartTime (fold (water_sample P) es s) = pumpStartTime s"
  by (induction es arbitrary: s) (simp_all add: water_sample_fields)

lemma water_activate_start:
  assumes "(processStage s = 0 \<and> distance2 s < 10) \<or> processStage s = 2"
    and "\<not> pumpRunning s"
  shows "water_activate e s =
     s\<lparr>trace := trace s @ (if processStage s = 2 then [Delay 5000] else []) @
         [SerialPrintln ''Turning ON Water Pump...'', DigitalWrite water_relay LOW,
          DigitalWrite water_blueLed HIGH, Tone water_buzzer 1000],
       pumpRunning := True, pumpStartTime := millis1 e\<rparr>"
  using assms by (auto simp add: water_activate_def emit_def Let_def)

lemma water_activate_running: "pumpRunning s \<Longrightarrow> water_activate e s = s"
  by (simp add: water_activate_def)

lemma water_deactivate_wait:
  "millis2 e - pumpStartTime s < 5000 \<Longrightarrow> water_deactivate e s = s"
  by (simp add: water_deactivate_def not_le [symmetric])

lemma water_deactivate_stop0:
  assumes "processStage s = 0" and "pumpRunning s"
    and "5000 \<le> millis2 e - pumpStartTime s"
  shows "water_deactivate e s =
     s\<lparr>processStage := 1,
       trace := trace s @
         [SerialPrintln ''Turning OFF pump.'', DigitalWrite water_relay HIGH,
          DigitalWrite water_blueLed LOW, NoTone water_buzzer,
          SerialPrintln ''Sending signal to Soap Dispenser (Node 2)...'',
          HttpGet ''http://YOUR_NODE2_IP/update_stage?stage=1'',
          SerialPrintln (if httpResponseCode1 e > 0
                         then ''Node 2 Response: '' @ String_int (httpResponseCode1 e)
                         else ''Error sending request to Node 2.''),
          SerialPrintln ''Sending signal to Tissue Dispenser (Node 3)...'',
          HttpGet ''http://YOUR_NODE3_IP/update_stage?stage=1'',
          SerialPrintln (if httpResponseCode2 e > 0
                         then ''Node 3 Response: '' @ String_int (httpResponseCode2 e)
                         else ''Error sending request to Node 3.''),
          Delay 500],
       pumpRunning := False\<rparr>"
  using assms
  by (simp add: water_deactivate_def water_sendCompletionSignal_def node2_IP_def node3_IP_def
      emit_def Let_def)

lemma water_deactivate_stop2:
  assumes "processStage s = 2" and "pumpRunning s"
    and "5000 \<le> millis2 e - pumpStartTime s"
  shows "water_deactivate e s =
     s\<lparr>processStage := 3,
       trace := trace s @
         [SerialPrintln ''Turning OFF pump.'', DigitalWrite water_relay HIGH,
          DigitalWrite water_blueLed LOW, NoTone water_buzzer,
          SerialPrintln ''Sending signal to Soap Dispenser (Node 2)...'',
          HttpGet ''http://YOUR_NODE2_IP/update_stage?stage=3'',
          SerialPrintln (if httpResponseCode1 e > 0
                         then ''Node 2 Response: '' @ String_int (httpResponseCode1 e)
                         else ''Error sending request to Node 2.''),
          SerialPrintln ''Sending signal to Tissue Dispenser (Node 3)...'',
          HttpGet ''http://YOUR_NODE3_IP/update_stage?stage=3'',
          SerialPrintln (if httpResponseCode2 e > 0
                         then ''Node 3 Response: '' @ String_int (httpResponseCode2 e)
                         else ''Error sending request to Node 3.''),
          Delay 500],
       pumpRunning := False\<rparr>"
  using assms
  by (simp add: water_deactivate_def water_sendCompletionSignal_def node2_IP_def node3_IP_def
      emit_def Let_def)

lemma water_loop_None:
  "request e = None \<Longrightarrow>
   water_loop P e s = water_deactivate e (water_activate e (water_sample P e s))"
  by (simp add: water_loop_def water_handleClient_None)

lemma water_start_iteration:
  assumes "(processStage s = 0 \<and> echo_cm (pulse2 e) < 10) \<or> processStage s = 2"
    and "\<not> pumpRunning s" and "request e = None" and "millis2 e - millis1 e < 5000"
  shows "water_loop P e s =
     (water_sample P e s)\<lparr>
       trace := trace (water_sample P e s) @ (if processStage s = 2 then [Delay 5000] else []) @
         [SerialPrintln ''Turning ON Water Pump...'', DigitalWrite water_relay LOW,
          DigitalWrite water_blueLed HIGH, Tone water_buzzer 1000],
       pumpRunning := True, pumpStartTime := millis1 e\<rparr>"
proof -
  have "water_activate e (water_sample P e s) =
     (water_sample P e s)\<lparr>
       trace := trace (water_sample P e s) @ (if processStage s = 2 then [Delay 5000] else []) @
         [SerialPrintln ''Turning ON Water Pump...'', DigitalWrite water_relay LOW,
          DigitalWrite water_blueLed HIGH, Tone water_buzzer 1000],
       pumpRunning := True, pumpStartTime := millis1 e\<rparr>"
    using assms(1,2) water_activate_start [of "water_sample P e s" e]
    by (simp add: water_sample_fields)
  then show ?thesis
    using assms(3,4) by (simp add: water_loop_None water_deactivate_wait)
qed

lemma water_wait_iteration:
  assumes "pumpRunning s" and "request e = None" and "millis2 e - pumpStartTime s < 5000"
  shows "water_loop P e s = water_sample P e s"
  using assms
  by (simp add: water_loop_None water_activate_running water_deactivate_wait
      water_sample_fields)

lemma water_wait_run:
  assumes "pumpRunning s"
    and "\<forall>e \<in> set es. request e = None \<and> millis2 e - pumpStartTime s < 5000"
  shows "water_run P es s = fold (water_sample P) es s"
  using assms
proof (induction es arbitrary: s)
  case Nil
  then show ?case by simp
next
  case (Cons e es)
  have step: "water_loop P e s = water_sample P e s"
    using Cons.prems by (simp add: water_wait_iteration)
  have "pumpRunning (water_sample P e s)"
    and "pumpStartTime (water_sample P e s) = pumpStartTime s"
    using Cons.prems by (simp_all add: water_sample_fields)
  then show ?case
    using Cons.IH [of "water_sample P e s"] Cons.prems step by simp
qed

lemma water_stop_iteration0:
  assumes "processStage s = 0" and "pumpRunning s" and "request e = None"
    and "5000 \<le> millis2 e - pumpStartTime s"
  shows "water_loop P e s =
     (water_sample P e s)\<lparr>processStage := 1,
       trace := trace (water_sample P e s) @
         [SerialPrintln ''Turning OFF pump.'', DigitalWrite water_relay HIGH,
          DigitalWrite water_blueLed LOW, NoTone water_buzzer,
          SerialPrintln ''Sending signal to Soap Dispenser (Node 2)...'',
          HttpGet ''http://YOUR_NODE2_IP/update_stage?stage=1'',
          SerialPrintln (if httpResponseCode1 e > 0
                         then ''Node 2 Response: '' @ String_int (httpResponseCode1 e)
                         else ''Error sending request to Node 2.''),
          SerialPrintln ''Sending signal to Tissue Dispenser (Node 3)...'',
          HttpGet ''http://YOUR_NODE3_IP/update_stage?stage=1'',
          SerialPrintln (if httpResponseCode2 e > 0
                         then ''Node 3 Response: '' @ String_int (httpResponseCode2 e)
                         else ''Error sending request to Node 3.''),
          Delay 500],
       pumpRunning := False\<rparr>"
  using assms water_deactivate_stop0 [of "water_sample P e s" e]
  by (simp add: water_loop_None water_activate_running water_sample_fields)

lemma water_stop_iteration2:
  assumes "processStage s = 2" and "pumpRunning s" and "request e = None"
    and "5000 \<le> millis2 e - pumpStartTime s"
  shows "water_loop P e s =
     (water_sample P e s)\<lparr>processStage := 3,
       trace := trace (water_sample P e s) @
         [SerialPrintln ''Turning OFF pump.'', DigitalWrite water_relay HIGH,
          DigitalWrite water_blueLed LOW, NoTone water_buzzer,
          SerialPrintln ''Sending signal to Soap Dispenser (Node 2)...'',
          HttpGet ''http://YOUR_NODE2_IP/update_stage?stage=3'',
          SerialPrintln (if httpResponseCode1 e > 0
                         then ''Node 2 Response: '' @ String_int (httpResponseCode1 e)
                         else ''Error sending request to Node 2.''),
          SerialPrintln ''Sending signal to Tissue Dispenser (Node 3)...'',
          HttpGet ''http://YOUR_NODE3_IP/update_stage?stage=3'',
          SerialPrintln (if httpResponseCode2 e > 0
                         then ''Node 3 Response: '' @ String_int (httpResponseCode2 e)
                         else ''Error sending request to Node 3.''),
          Delay 500],
       pumpRunning := False\<rparr>"
  using assms water_deactivate_stop2 [of "water_sample P e s" e]
  by (simp add: water_loop_None water_activate_running water_sample_fields)

lemma water_example_reading:
  "echo_cm 300 = 5" "echo_cm 600 = 10" "echo_cm 0 = - 1"
  by (simp_all add: echo_cm_def)

text \<open>
  Claim C4.  The water node is in stage 0 with the pump off, no request is pending, and the
  hand sensor reads 5 cm.  In that iteration \<open>e1\<close> the pump is switched on (relay LOW, blue
  LED, buzzer) with no delay before it, and the start time is the clock reading \<open>millis1 e1\<close>.
  While the clock read at the stop check is less than 5000 ms past the start (iterations
  \<open>es\<close>), an iteration only samples the sensors.  In the first iteration \<open>e2\<close> whose stop check
  reads 5000 ms or more past the start, the pump is switched off, \<^verbatim>\<open>stage=1\<close> is requested from
  node 2 (soap) and from node 3 (tissue), and the local stage becomes 1.
\<close>

theorem water_hand_cycle:
  assumes "processStage s = 0" and "\<not> pumpRunning s"
    and "request e1 = None" and "distance2 (water_sample P e1 s) = 5"
    and "millis2 e1 - millis1 e1 < 5000"
    and "\<forall>e \<in> set es. request e = None \<and> millis2 e - millis1 e1 < 5000"
    and "request e2 = None" and "5000 \<le> millis2 e2 - millis1 e1"
  shows
    "water_loop P e1 s =
       (water_sample P e1 s)\<lparr>
         trace := trace (water_sample P e1 s) @
           [SerialPrintln ''Turning ON Water Pump...'', DigitalWrite water_relay LOW,
            DigitalWrite water_blueLed HIGH, Tone water_buzzer 1000],
         pumpRunning := True, pumpStartTime := millis1 e1\<rparr> \<and>
     water_run P es (water_loop P e1 s) = fold (water_sample P) es (water_loop P e1 s) \<and>
     water_loop P e2 (water_run P es (water_loop P e1 s)) =
       (water_sample P e2 (water_run P es (water_loop P e1 s)))\<lparr>
         processStage := 1,
         trace := trace (water_sample P e2 (water_run P es (water_loop P e1 s))) @
           [SerialPrintln ''Turning OFF pump.'', DigitalWrite water_relay HIGH,
            DigitalWrite water_blueLed LOW, NoTone water_buzzer,
            SerialPrintln ''Sending signal to Soap Dispenser (Node 2)...'',
            HttpGet ''http://YOUR_NODE2_IP/update_stage?stage=1'',
            SerialPrintln (if httpResponseCode1 e2 > 0
                           then ''Node 2 Response: '' @ String_int (httpResponseCode1 e2)
                           else ''Error sending request to Node 2.''),
            SerialPrintln ''Sending signal to Tissue Dispenser (Node 3)...'',
            HttpGet ''http://YOUR_NODE3_IP/update_stage?stage=1'',
            SerialPrintln (if httpResponseCode2 e2 > 0
                           then ''Node 3 Response: '' @ String_int (httpResponseCode2 e2)
                           else ''Error sending request to Node 3.''),
            Delay 500],
         pumpRunning := False\<rparr>"
proof -
  have near: "echo_cm (pulse2 e1) < 10"
    using assms(4) by (simp add: water_sample_fields)
  have first: "water_loop P e1 s =
       (water_sample P e1 s)\<lparr>
         trace := trace (water_sample P e1 s) @
           [SerialPrintln ''Turning ON Water Pump...'', DigitalWrite water_relay LOW,
            DigitalWrite water_blueLed HIGH, Tone water_buzzer 1000],
         pumpRunning := True, pumpStartTime := millis1 e1\<rparr>"
    using water_start_iteration [of s e1 P] assms(1,2,3,5) near by simp
  have s1: "processStage (water_loop P e1 s) = 0" "pumpRunning (water_loop P e1 s)"
    "pumpStartTime (water_loop P e1 s) = millis1 e1"
    using assms(1) by (simp_all add: first water_sample_fields)
  have waiting: "water_run P es (water_loop P e1 s) = fold (water_sample P) es (water_loop P e1 s)"
    using water_wait_run [of "water_loop P e1 s" es P] s1 assms(6) by simp
  have s2: "processStage (water_run P es (water_loop P e1 s)) = 0"
    "pumpRunning (water_run P es (water_loop P e1 s))"
    "pumpStartTime (water_run P es (water_loop P e1 s)) = millis1 e1"
    using s1 by (simp_all add: waiting fold_water_sample_fields)
  have last: "water_loop P e2 (water_run P es (water_loop P e1 s)) =
       (water_sample P e2 (water_run P es (water_loop P e1 s)))\<lparr>
         processStage := 1,
         trace := trace (water_sample P e2 (water_run P es (water_loop P e1 s))) @
           [SerialPrintln ''Turning OFF pump.'', DigitalWrite water_relay HIGH,
            DigitalWrite water_blueLed LOW, NoTone water_buzzer,
            SerialPrintln ''Sending signal to Soap Dispenser (Node 2)...'',
            HttpGet ''http://YOUR_NODE2_IP/update_stage?stage=1'',
            SerialPrintln (if httpResponseCode1 e2 > 0
                           then ''Node 2 Response: '' @ String_int (httpResponseCode1 e2)
                           else ''Error sending request to Node 2.''),
            SerialPrintln ''Sending signal to Tissue Dispenser (Node 3)...'',
            HttpGet ''http://YOUR_NODE3_IP/update_stage?stage=1'',
            SerialPrintln (if httpResponseCode2 e2 > 0
                           then ''Node 3 Response: '' @ String_int (httpResponseCode2 e2)
                           else ''Error sending request to Node 3.''),
            Delay 500],
         pumpRunning := False\<rparr>"
    using water_stop_iteration0 [of "water_run P es (water_loop P e1 s)" e2 P] s2 assms(7,8)
    by simp
  from first waiting last show ?thesis by blast
qed

theorem water_hand_cycle_witness:
  "distance2 (water_sample reference_platform (water_env_at 1000 1000 300 300) water_init) = 5 \<and>
   pumpRunning (water_loop reference_platform (water_env_at 1000 1000 300 300) water_init) \<and>
   processStage
     (water_loop reference_platform (water_env_at 0 6000 300 600)
       (water_run reference_platform [water_env_at 0 3000 300 300]
         (water_loop reference_platform (water_env_at 1000 1000 300 300) water_init))) = 1 \<and>
   \<not> pumpRunning
     (water_loop reference_platform (water_env_at 0 6000 300 600)
       (water_run reference_platform [water_env_at 0 3000 300 300]
         (water_loop reference_platform (water_env_at 1000 1000 300 300) water_init)))"
proof -
  have h1: "processStage water_init = 0" and h2: "\<not> pumpRunning water_init"
    by (simp_all add: water_init_def)
  have h3: "request (water_env_at 1000 1000 300 300) = None"
    and h5: "millis2 (water_env_at 1000 1000 300 300) - millis1 (water_env_at 1000 1000 300 300) < 5000"
    by (simp_all add: water_env_at_def)
  have h4: "distance2 (water_sample reference_platform (water_env_at 1000 1000 300 300) water_init) = 5"
    by (simp add: water_sample_fields water_env_at_def water_example_reading)
  have h6: "\<forall>e \<in> set [water_env_at 0 3000 300 300].
      request e = None \<and> millis2 e - millis1 (water_env_at 1000 1000 300 300) < 5000"
    by (simp add: water_env_at_def)
  have h7: "request (water_env_at 0 6000 300 600) = None"
    and h8: "5000 \<le> millis2 (water_env_at 0 6000 300 600) - millis1 (water_env_at 1000 1000 300 300)"
    by (simp_all add: water_env_at_def)
  note cycle = water_hand_cycle [OF h1 h2 h3 h4 h5 h6 h7 h8]
  have "pumpRunning (water_loop reference_platform (water_env_at 1000 1000 300 300) water_init)"
    by (subst cycle [THEN conjunct1]) simp
  moreover have "processStage
     (water_loop reference_platform (water_env_at 0 6000 300 600)
       (water_run reference_platform [water_env_at 0 3000 300 300]
         (water_loop reference_platform (water_env_at 1000 1000 300 300) water_init))) = 1"
    by (subst cycle [THEN conjunct2, THEN conjunct2]) simp
  moreover have "\<not> pumpRunning
     (water_loop reference_platform (water_env_at 0 6000 300 600)
       (water_run reference_platform [water_env_at 0 3000 300 300]
         (water_loop reference_platform (water_env_at 1000 1000 300 300) water_init)))"
    by (subst cycle [THEN conjunct2, THEN conjunct2]) simp
  ultimately show ?thesis
    using h4 by blast
qed

text \<open>
  Claim C6.  The water node is in stage 2 with the pump off and no request is pending.
  Whatever the hand sensor reads, the iteration \<open>e1\<close> first waits \<^verbatim>\<open>delay(5000)\<close> and then
  switches the pump on, the start time being \<open>millis1 e1\<close>.  While less than 5000 ms have
  passed at the stop check the iterations only sample; at the first stop check 5000 ms or
  more past the start the pump is switched off, \<^verbatim>\<open>stage=3\<close> is requested from node 2 and from
  node 3, and the local stage becomes 3.
\<close>

theorem water_rinse_cycle:
  assumes "processStage s = 2" and "\<not> pumpRunning s"
    and "request e1 = None" and "millis2 e1 - millis1 e1 < 5000"
    and "\<forall>e \<in> set es. request e = None \<and> millis2 e - millis1 e1 < 5000"
    and "request e2 = None" and "5000 \<le> millis2 e2 - millis1 e1"
  shows
    "water_loop P e1 s =
       (water_sample P e1 s)\<lparr>
         trace := trace (water_sample P e1 s) @ [Delay 5000] @
           [SerialPrintln ''Turning ON Water Pump...'', DigitalWrite water_relay LOW,
            DigitalWrite water_blueLed HIGH, Tone water_buzzer 1000],
         pumpRunning := True, pumpStartTime := millis1 e1\<rparr> \<and>
     water_run P es (water_loop P e1 s) = fold (water_sample P) es (water_loop P e1 s) \<and>
     water_loop P e2 (water_run P es (water_loop P e1 s)) =
       (water_sample P e2 (water_run P es (water_loop P e1 s)))\<lparr>
         processStage := 3,
         trace := trace (water_sample P e2 (water_run P es (water_loop P e1 s))) @
           [SerialPrintln ''Turning OFF pump.'', DigitalWrite water_relay HIGH,
            DigitalWrite water_blueLed LOW, NoTone water_buzzer,
            SerialPrintln ''Sending signal to Soap Dispenser (Node 2)...'',
            HttpGet ''http://YOUR_NODE2_IP/update_stage?stage=3'',
            SerialPrintln (if httpResponseCode1 e2 > 0
                           then ''Node 2 Response: '' @ String_int (httpResponseCode1 e2)
                           else ''Error sending request to Node 2.''),
            SerialPrintln ''Sending signal to Tissue Dispenser (Node 3)...'',
            HttpGet ''http://YOUR_NODE3_IP/update_stage?stage=3'',
            SerialPrintln (if httpResponseCode2 e2 > 0
                           then ''Node 3 Response: '' @ String_int (httpResponseCode2 e2)
                           else ''Error sending request to Node 3.''),
            Delay 500],
         pumpRunning := False\<rparr>"
proof -
  have first: "water_loop P e1 s =
       (water_sample P e1 s)\<lparr>
         trace := trace (water_sample P e1 s) @ [Delay 5000] @
           [SerialPrintln ''Turning ON Water Pump...'', DigitalWrite water_relay LOW,
            DigitalWrite water_blueLed HIGH, Tone water_buzzer 1000],
         pumpRunning := True, pumpStartTime := millis1 e1\<rparr>"
    using water_start_iteration [of s e1 P] assms(1,2,3,4) by simp
  have s1: "processStage (water_loop P e1 s) = 2" "pumpRunning (water_loop P e1 s)"
    "pumpStartTime (water_loop P e1 s) = millis1 e1"
    using assms(1) by (simp_all add: first water_sample_fields)
  have waiting: "water_run P es (water_loop P e1 s) = fold (water_sample P) es (water_loop P e1 s)"
    using water_wait_run [of "water_loop P e1 s" es P] s1 assms(5) by simp
  have s2: "processStage (water_run P es (water_loop P e1 s)) = 2"
    "pumpRunning (water_run P es (water_loop P e1 s))"
    "pumpStartTime (water_run P es (water_loop P e1 s)) = millis1 e1"
    using s1 by (simp_all add: waiting fold_water_sample_fields)
  have last: "water_loop P e2 (water_run P es (water_loop P e1 s)) =
       (water_sample P e2 (water_run P es (water_loop P e1 s)))\<lparr>
         processStage := 3,
         trace := trace (water_sample P e2 (water_run P es (water_loop P e1 s))) @
           [SerialPrintln ''Turning OFF pump.'', DigitalWrite water_relay HIGH,
            DigitalWrite water_blueLed LOW, NoTone water_buzzer,
            SerialPrintln ''Sending signal to Soap Dispenser (Node 2)...'',
            HttpGet ''http://YOUR_NODE2_IP/update_stage?stage=3'',
            SerialPrintln (if httpResponseCode1 e2 > 0
                           then ''Node 2 Response: '' @ String_int (httpResponseCode1 e2)
                           else ''Error sending request to Node 2.''),
            SerialPrintln ''Sending signal to Tissue Dispenser (Node 3)...'',
            HttpGet ''http://YOUR_NODE3_IP/update_stage?stage=3'',
            SerialPrintln (if httpResponseCode2 e2 > 0
                           then ''Node 3 Response: '' @ String_int (httpResponseCode2 e2)
                           else ''Error sending request to Node 3.''),
            Delay 500],
         pumpRunning := False\<rparr>"
    using water_stop_iteration2 [of "water_run P es (water_loop P e1 s)" e2 P] s2 assms(6,7)
    by simp
  from first waiting last show ?thesis by blast
qed

theorem water_rinse_cycle_witness:
  "pumpRunning
     (water_loop reference_platform (water_env_at 1000 1000 300 0)
       (water_init\<lparr>processStage := 2\<rparr>)) \<and>
   processStage
     (water_loop reference_platform (water_env_at 0 6000 300 0)
       (water_run reference_platform [water_env_at 0 3000 300 0]
         (water_loop reference_platform (water_env_at 1000 1000 300 0)
           (water_init\<lparr>processStage := 2\<rparr>)))) = 3 \<and>
   \<not> pumpRunning
     (water_loop reference_platform (water_env_at 0 6000 300 0)
       (water_run reference_platform [water_env_at 0 3000 300 0]
         (water_loop reference_platform (water_env_at 1000 1000 300 0)
           (water_init\<lparr>processStage := 2\<rparr>))))"
proof -
  have h1: "processStage (water_init\<lparr>processStage := 2\<rparr>) = 2"
    and h2: "\<not> pumpRunning (water_init\<lparr>processStage := 2\<rparr>)"
    by (simp_all add: water_init_def)
  have h3: "request (water_env_at 1000 1000 300 0) = None"
    and h4: "millis2 (water_env_at 1000 1000 300 0) - millis1 (water_env_at 1000 1000 300 0) < 5000"
    by (simp_all add: water_env_at_def)
  have h5: "\<forall>e \<in> set [water_env_at 0 3000 300 0].
      request e = None \<and> millis2 e - millis1 (water_env_at 1000 1000 300 0) < 5000"
    by (simp add: water_env_at_def)
  have h6: "request (water_env_at 0 6000 300 0) = None"
    and h7: "5000 \<le> millis2 (water_env_at 0 6000 300 0) - millis1 (water_env_at 1000 1000 300 0)"
    by (simp_all add: water_env_at_def)
  note cycle = water_rinse_cycle [OF h1 h2 h3 h4 h5 h6 h7, of reference_platform]
  have "pumpRunning
     (water_loop reference_platform (water_env_at 1000 1000 300 0)
       (water_init\<lparr>processStage := 2\<rparr>))"
    by (subst cycle [THEN conjunct1]) simp
  moreover have "processStage
     (water_loop reference_platform (water_env_at 0 6000 300 0)
       (water_run reference_platform [water_env_at 0 3000 300 0]
         (water_loop reference_platform (water_env_at 1000 1000 300 0)
           (water_init\<lparr>processStage := 2\<rparr>)))) = 3"
    by (subst cycle [THEN conjunct2, THEN conjunct2]) simp
  moreover have "\<not> pumpRunning
     (water_loop reference_platform (water_env_at 0 6000 300 0)
       (water_run reference_platform [water_env_at 0 3000 300 0]
         (water_loop reference_platform (water_env_at 1000 1000 300 0)
           (water_init\<lparr>processStage := 2\<rparr>))))"
    by (subst cycle [THEN conjunct2, THEN conjunct2]) simp
  ultimately show ?thesis
    by blast
qed

text \<open>
  Claim C10.  The water node is in stage 0 with the pump off and no request is pending, and
  the hand sensor times out (\<^verbatim>\<open>pulseIn\<close> returns 0).  Then \<^verbatim>\<open>distance2\<close> is the sentinel \<open>-1\<close>,
  which is below 10, and the iteration switches the pump on.  It does so exactly as for a hand
  within 10 cm: for any pulse width \<open>p\<close> whose reading is below 10, the iteration that reads
  \<open>p\<close> instead ends in the same state, the stored \<^verbatim>\<open>distance2\<close> apart.
\<close>

theorem water_timeout_triggers_pump:
  assumes "processStage s = 0" and "\<not> pumpRunning s"
    and "request e = None" and "pulse2 e = 0" and "millis2 e - millis1 e < 5000"
  shows
    "distance2 (water_loop P e s) = - 1 \<and>
     water_loop P e s =
       (water_sample P e s)\<lparr>
         trace := trace (water_sample P e s) @
           [SerialPrintln ''Turning ON Water Pump...'', DigitalWrite water_relay LOW,
            DigitalWrite water_blueLed HIGH, Tone water_buzzer 1000],
         pumpRunning := True, pumpStartTime := millis1 e\<rparr> \<and>
     (\<forall>p. echo_cm p < 10 \<longrightarrow>
        water_loop P (e\<lparr>pulse2 := p\<rparr>) s = (water_loop P e s)\<lparr>distance2 := echo_cm p\<rparr>)"
proof -
  have sentinel: "echo_cm (pulse2 e) = - 1"
    using assms(4) by (simp add: echo_cm_def)
  have timeout: "water_loop P e s =
       (water_sample P e s)\<lparr>
         trace := trace (water_sample P e s) @
           [SerialPrintln ''Turning ON Water Pump...'', DigitalWrite water_relay LOW,
            DigitalWrite water_blueLed HIGH, Tone water_buzzer 1000],
         pumpRunning := True, pumpStartTime := millis1 e\<rparr>"
    using water_start_iteration [of s e P] assms(1,2,3,5) sentinel by simp
  have reading: "distance2 (water_loop P e s) = - 1"
    by (simp add: timeout water_sample_fields sentinel)
  have hand: "water_loop P (e\<lparr>pulse2 := p\<rparr>) s = (water_loop P e s)\<lparr>distance2 := echo_cm p\<rparr>"
    if "echo_cm p < 10" for p
    using water_start_iteration [of s "e\<lparr>pulse2 := p\<rparr>" P] assms(1,2,3,5) that
    by (simp add: timeout water_sample_pulse2)
  from reading timeout hand show ?thesis by blast
qed

theorem water_timeout_triggers_pump_witness:
  "distance2 (water_loop reference_platform (water_env_at 1000 1000 300 0) water_init) = - 1 \<and>
   pumpRunning (water_loop reference_platform (water_env_at 1000 1000 300 0) water_init) \<and>
   echo_cm 300 < 10 \<and>
   water_loop reference_platform ((water_env_at 1000 1000 300 0)\<lparr>pulse2 := 300\<rparr>) water_init =
     (water_loop reference_platform (water_env_at 1000 1000 300 0) water_init)\<lparr>distance2 := echo_cm 300\<rparr>"
proof -
  have h1: "processStage water_init = 0" and h2: "\<not> pumpRunning water_init"
    by (simp_all add: water_init_def)
  have h3: "request (water_env_at 1000 1000 300 0) = None"
    and h4: "pulse2 (water_env_at 1000 1000 300 0) = 0"
    and h5: "millis2 (water_env_at 1000 1000 300 0) - millis1 (water_env_at 1000 1000 300 0) < 5000"
    by (simp_all add: water_env_at_def)
  have h6: "echo_cm 300 < 10"
    by (simp add: water_example_reading)
  note timeout = water_timeout_triggers_pump [OF h1 h2 h3 h4 h5, of reference_platform]
  have "pumpRunning (water_loop reference_platform (water_env_at 1000 1000 300 0) water_init)"
    by (subst timeout [THEN conjunct2, THEN conjunct1]) simp
  moreover have "water_loop reference_platform ((water_env_at 1000 1000 300 0)\<lparr>pulse2 := 300\<rparr>)
      water_init =
     (water_loop reference_platform (water_env_at 1000 1000 300 0) water_init)\<lparr>distance2 := echo_cm 300\<rparr>"
    using timeout [THEN conjunct2, THEN conjunct2] h6 by blast
  ultimately show ?thesis
    using timeout [THEN conjunct1] h6 by blast
qed

section \<open>The soap dispenser's loop\<close>

lemma soap_handleClient_None: "soap_handleClient P None s = s"
  by (simp add: soap_handleClient_def)

lemma soap_sample_eq:
  "soap_sample P e s =
     s\<lparr>distance1 := echo_cm (pulse1 e),
       trace := trace s @
         [DigitalWrite soap_trig1 LOW, DelayMicroseconds 2, DigitalWrite soap_trig1 HIGH,
          DelayMicroseconds 10, DigitalWrite soap_trig1 LOW, Delay 50,
          DigitalWrite soap_redLed
            (if getSoapLevelPercentage P (echo_cm (pulse1 e)) < 20 then HIGH else LOW)]\<rparr>"
  by (simp add: soap_sample_def getDistance_eq emit_def Let_def)

lemma soap_sample_fields:
  "processStage (soap_sample P e s) = processStage s"
  "pumpRunning (soap_sample P e s) = pumpRunning s"
  "pumpStartTime (soap_sample P e s) = pumpStartTime s"
  by (simp_all add: soap_sample_eq)

lemma fold_soap_sample_fields:
  "processStage (fold (soap_sample P) es s) = processStage s"
  "pumpRunning (fold (soap_sample P) es s) = pumpRunning s"
  "pumpStartTime (fold (soap_sample P) es s) = pumpStartTime s"
  by (induction es arbitrary: s) (simp_all add: soap_sample_fields)

lemma soap_activate_start:
  assumes "processStage s = 1" and "\<not> pumpRunning s"
  shows "soap_activate e s =
     s\<lparr>trace := trace s @
         [SerialPrintln ''Turning ON Soap Dispenser...'', DigitalWrite soap_relay LOW,
            DigitalWrite soap_yellowLed HIGH, Tone soap_buzzer 500],
       pumpRunning := True, pumpStartTime := millis1 e\<rparr>"
  using assms by (simp add: soap_activate_def emit_def Let_def)

lemma soap_activate_running: "pumpRunning s \<Longrightarrow> soap_activate e s = s"
  by (simp add: soap_activate_def)

lemma soap_deactivate_wait:
  "millis2 e - pumpStartTime s < 2000 \<Longrightarrow> soap_deactivate e s = s"
  by (simp add: soap_deactivate_def not_le [symmetric])

lemma soap_deactivate_stop:
  assumes "pumpRunning s" and "2000 \<le> millis2 e - pumpStartTime s"
  shows "soap_deactivate e s =
     s\<lparr>processStage := 2,
       trace := trace s @
         [SerialPrintln ''2 seconds passed. Turning OFF Soap Dispenser.'',
            DigitalWrite soap_relay HIGH, DigitalWrite soap_yellowLed LOW, NoTone soap_buzzer,
            SerialPrintln ''Sending signal to Water Dispenser (Node 1)...'',
            HttpGet ''http://YOUR_NODE1_IP/update_stage?stage=2'',
            SerialPrintln (if httpResponseCode1 e > 0
                           then ''Node 1 Response: '' @ String_int (httpResponseCode1 e)
                           else ''Error sending request to Node 1.''),
            SerialPrintln ''Sending signal to Tissue Dispenser (Node 3)...'',
            HttpGet ''http://YOUR_NODE3_IP/update_stage?stage=2'',
            SerialPrintln (if httpResponseCode2 e > 0
                           then ''Node 3 Response: '' @ String_int (httpResponseCode2 e)
                           else ''Error sending request to Node 3.''),
            Delay 500],
       pumpRunning := False\<rparr>"
  using assms
  by (simp add: soap_deactivate_def soap_sendCompletionSignal_def node1_IP_def node3_IP_def
      emit_def Let_def)

lemma soap_loop_None:
  "request e = None \<Longrightarrow>
   soap_loop P e s = soap_deactivate e (soap_activate e (soap_sample P e s))"
  by (simp add: soap_loop_def soap_handleClient_None)

lemma soap_start_iteration:
  assumes "processStage s = 1" and "\<not> pumpRunning s" and "request e = None"
    and "millis2 e - millis1 e < 2000"
  shows "soap_loop P e s =
     (soap_sample P e s)\<lparr>
       trace := trace (soap_sample P e s) @
         [SerialPrintln ''Turning ON Soap Dispenser...'', DigitalWrite soap_relay LOW,
            DigitalWrite soap_yellowLed HIGH, Tone soap_buzzer 500],
       pumpRunning := True, pumpStartTime := millis1 e\<rparr>"
proof -
  have "soap_activate e (soap_sample P e s) =
     (soap_sample P e s)\<lparr>
       trace := trace (soap_sample P e s) @
         [SerialPrintln ''Turning ON Soap Dispenser...'', DigitalWrite soap_relay LOW,
            DigitalWrite soap_yellowLed HIGH, Tone soap_buzzer 500],
       pumpRunning := True, pumpStartTime := millis1 e\<rparr>"
    using assms(1,2) soap_activate_start [of "soap_sample P e s" e]
    by (simp add: soap_sample_fields)
  then show ?thesis
    using assms(3,4) by (simp add: soap_loop_None soap_deactivate_wait)
qed

lemma soap_wait_iteration:
  assumes "pumpRunning s" and "request e = None" and "millis2 e - pumpStartTime s < 2000"
  shows "soap_loop P e s = soap_sample P e s"
  using assms
  by (simp add: soap_loop_None soap_activate_running soap_deactivate_wait soap_sample_fields)

lemma soap_wait_run:
  assumes "pumpRunning s"
    and "\<forall>e \<in> set es. request e = None \<and> millis2 e - pumpStartTime s < 2000"
  shows "soap_run P es s = fold (soap_sample P) es s"
  using assms
proof (induction es arbitrary: s)
  case Nil
  then show ?case by simp
next
  case (Cons e es)
  have step: "soap_loop P e s = soap_sample P e s"
    using Cons.prems by (simp add: soap_wait_iteration)
  have "pumpRunning (soap_sample P e s)"
    and "pumpStartTime (soap_sample P e s) = pumpStartTime s"
    using Cons.prems by (simp_all add: soap_sample_fields)
  then show ?case
    using Cons.IH [of "soap_sample P e s"] Cons.prems step by simp
qed

lemma soap_stop_iteration:
  assumes "pumpRunning s" and "request e = None" and "2000 \<le> millis2 e - pumpStartTime s"
  shows "soap_loop P e s =
     (soap_sample P e s)\<lparr>processStage := 2,
       trace := trace (soap_sample P e s) @
         [SerialPrintln ''2 seconds passed. Turning OFF Soap Dispenser.'',
            DigitalWrite soap_relay HIGH, DigitalWrite soap_yellowLed LOW, NoTone soap_buzzer,
            SerialPrintln ''Sending signal to Water Dispenser (Node 1)...'',
            HttpGet ''http://YOUR_NODE1_IP/update_stage?stage=2'',
            SerialPrintln (if httpResponseCode1 e > 0
                           then ''Node 1 Response: '' @ String_int (httpResponseCode1 e)
                           else ''Error sending request to Node 1.''),
            SerialPrintln ''Sending signal to Tissue Dispenser (Node 3)...'',
            HttpGet ''http://YOUR_NODE3_IP/update_stage?stage=2'',
            SerialPrintln (if httpResponseCode2 e > 0
                           then ''Node 3 Response: '' @ String_int (httpResponseCode2 e)
                           else ''Error sending request to Node 3.''),
            Delay 500],
       pumpRunning := False\<rparr>"
  using assms soap_deactivate_stop [of "soap_sample P e s" e]
  by (simp add: soap_loop_None soap_activate_running soap_sample_fields)

text \<open>
  Claim C5.  The soap node is in stage 1 with the pump off and no request is pending.
  Whatever the level sensor reads, the iteration \<open>e1\<close> switches the pump on with no delay
  before it, the start time being \<open>millis1 e1\<close>.  While less than 2000 ms have passed at the
  stop check the iterations only sample; at the first stop check 2000 ms or more past the
  start the pump is switched off, \<^verbatim>\<open>stage=2\<close> is requested from node 1 (water) and from node 3
  (tissue), and the local stage becomes 2.
\<close>

theorem soap_dispense_cycle:
  assumes "processStage s = 1" and "\<not> pumpRunning s"
    and "request e1 = None" and "millis2 e1 - millis1 e1 < 2000"
    and "\<forall>e \<in> set es. request e = None \<and> millis2 e - millis1 e1 < 2000"
    and "request e2 = None" and "2000 \<le> millis2 e2 - millis1 e1"
  shows
    "soap_loop P e1 s =
       (soap_sample P e1 s)\<lparr>
         trace := trace (soap_sample P e1 s) @
           [SerialPrintln ''Turning ON Soap Dispenser...'', DigitalWrite soap_relay LOW,
            DigitalWrite soap_yellowLed HIGH, Tone soap_buzzer 500],
         pumpRunning := True, pumpStartTime := millis1 e1\<rparr> \<and>
     soap_run P es (soap_loop P e1 s) = fold (soap_sample P) es (soap_loop P e1 s) \<and>
     soap_loop P e2 (soap_run P es (soap_loop P e1 s)) =
       (soap_sample P e2 (soap_run P es (soap_loop P e1 s)))\<lparr>
         processStage := 2,
         trace := trace (soap_sample P e2 (soap_run P es (soap_loop P e1 s))) @
           [SerialPrintln ''2 seconds passed. Turning OFF Soap Dispenser.'',
            DigitalWrite soap_relay HIGH, DigitalWrite soap_yellowLed LOW, NoTone soap_buzzer,
            SerialPrintln ''Sending signal to Water Dispenser (Node 1)...'',
            HttpGet ''http://YOUR_NODE1_IP/update_stage?stage=2'',
            SerialPrintln (if httpResponseCode1 e2 > 0
                           then ''Node 1 Response: '' @ String_int (httpResponseCode1 e2)
                           else ''Error sending request to Node 1.''),
            SerialPrintln ''Sending signal to Tissue Dispenser (Node 3)...'',
            HttpGet ''http://YOUR_NODE3_IP/update_stage?stage=2'',
            SerialPrintln (if httpResponseCode2 e2 > 0
                           then ''Node 3 Response: '' @ String_int (httpResponseCode2 e2)
                           else ''Error sending request to Node 3.''),
            Delay 500],
         pumpRunning := False\<rparr>"
proof -
  have first: "soap_loop P e1 s =
       (soap_sample P e1 s)\<lparr>
         trace := trace (soap_sample P e1 s) @
           [SerialPrintln ''Turning ON Soap Dispenser...'', DigitalWrite soap_relay LOW,
            DigitalWrite soap_yellowLed HIGH, Tone soap_buzzer 500],
         pumpRunning := True, pumpStartTime := millis1 e1\<rparr>"
    using soap_start_iteration [of s e1 P] assms(1,2,3,4) by simp
  have s1: "pumpRunning (soap_loop P e1 s)" "pumpStartTime (soap_loop P e1 s) = millis1 e1"
    by (simp_all add: first)
  have waiting: "soap_run P es (soap_loop P e1 s) = fold (soap_sample P) es (soap_loop P e1 s)"
    using soap_wait_run [of "soap_loop P e1 s" es P] s1 assms(5) by simp
  have s2: "pumpRunning (soap_run P es (soap_loop P e1 s))"
    "pumpStartTime (soap_run P es (soap_loop P e1 s)) = millis1 e1"
    using s1 by (simp_all add: waiting fold_soap_sample_fields)
  have last: "soap_loop P e2 (soap_run P es (soap_loop P e1 s)) =
       (soap_sample P e2 (soap_run P es (soap_loop P e1 s)))\<lparr>
         processStage := 2,
         trace := trace (soap_sample P e2 (soap_run P es (soap_loop P e1 s))) @
           [SerialPrintln ''2 seconds passed. Turning OFF Soap Dispenser.'',
            DigitalWrite soap_relay HIGH, DigitalWrite soap_yellowLed LOW, NoTone soap_buzzer,
            SerialPrintln ''Sending signal to Water Dispenser (Node 1)...'',
            HttpGet ''http://YOUR_NODE1_IP/update_stage?stage=2'',
            SerialPrintln (if httpResponseCode1 e2 > 0
                           then ''Node 1 Response: '' @ String_int (httpResponseCode1 e2)
                           else ''Error sending request to Node 1.''),
            SerialPrintln ''Sending signal to Tissue Dispenser (Node 3)...'',
            HttpGet ''http://YOUR_NODE3_IP/update_stage?stage=2'',
            SerialPrintln (if httpResponseCode2 e2 > 0
                           then ''Node 3 Response: '' @ String_int (httpResponseCode2 e2)
                           else ''Error sending request to Node 3.''),
            Delay 500],
         pumpRunning := False\<rparr>"
    using soap_stop_iteration [of "soap_run P es (soap_loop P e1 s)" e2 P] s2 assms(6,7)
    by simp
  from first waiting last show ?thesis by blast
qed

theorem soap_dispense_cycle_witness:
  "pumpRunning
     (soap_loop reference_platform (soap_env_at 1000 1000 0)
       (soap_init\<lparr>processStage := 1\<rparr>)) \<and>
   processStage
     (soap_loop reference_platform (soap_env_at 0 3000 300)
       (soap_run reference_platform [soap_env_at 0 2999 300]
         (soap_loop reference_platform (soap_env_at 1000 1000 0)
           (soap_init\<lparr>processStage := 1\<rparr>)))) = 2 \<and>
   \<not> pumpRunning
     (soap_loop reference_platform (soap_env_at 0 3000 300)
       (soap_run reference_platform [soap_env_at 0 2999 300]
         (soap_loop reference_platform (soap_env_at 1000 1000 0)
           (soap_init\<lparr>processStage := 1\<rparr>))))"
proof -
  have h1: "processStage (soap_init\<lparr>processStage := 1\<rparr>) = 1"
    and h2: "\<not> pumpRunning (soap_init\<lparr>processStage := 1\<rparr>)"
    by (simp_all add: soap_init_def)
  have h3: "request (soap_env_at 1000 1000 0) = None"
    and h4: "millis2 (soap_env_at 1000 1000 0) - millis1 (soap_env_at 1000 1000 0) < 2000"
    by (simp_all add: soap_env_at_def)
  have h5: "\<forall>e \<in> set [soap_env_at 0 2999 300].
      request e = None \<and> millis2 e - millis1 (soap_env_at 1000 1000 0) < 2000"
    by (simp add: soap_env_at_def)
  have h6: "request (soap_env_at 0 3000 300) = None"
    and h7: "2000 \<le> millis2 (soap_env_at 0 3000 300) - millis1 (soap_env_at 1000 1000 0)"
    by (simp_all add: soap_env_at_def)
  note cycle = soap_dispense_cycle [OF h1 h2 h3 h4 h5 h6 h7, of reference_platform]
  have "pumpRunning
     (soap_loop reference_platform (soap_env_at 1000 1000 0)
       (soap_init\<lparr>processStage := 1\<rparr>))"
    by (subst cycle [THEN conjunct1]) simp
  moreover have "processStage
     (soap_loop reference_platform (soap_env_at 0 3000 300)
       (soap_run reference_platform [soap_env_at 0 2999 300]
         (soap_loop reference_platform (soap_env_at 1000 1000 0)
           (soap_init\<lparr>processStage := 1\<rparr>)))) = 2"
    by (subst cycle [THEN conjunct2, THEN conjunct2]) simp
  moreover have "\<not> pumpRunning
     (soap_loop reference_platform (soap_env_at 0 3000 300)
       (soap_run reference_platform [soap_env_at 0 2999 300]
         (soap_loop reference_platform (soap_env_at 1000 1000 0)
           (soap_init\<lparr>processStage := 1\<rparr>))))"
    by (subst cycle [THEN conjunct2, THEN conjunct2]) simp
  ultimately show ?thesis
    by blast
qed

section \<open>The tissue dispenser's loop\<close>

lemma tissue_handleClient_None: "request e = None \<Longrightarrow> tissue_handleClient P e s = s"
  by (simp add: tissue_handleClient_def)

lemma rotateServoSlowly_sets_flag: "hasRotated (rotateServoSlowly fromAngle toAngle stepDelay s)"
  by (simp add: rotateServoSlowly_def emit_def Let_def)

lemma tissue_dispense_eq:
  "tissue_dispense e s =
     s\<lparr>processStage := 0,
       trace := trace s @
         [Delay 200, SerialPrintln ''Tissue OK.'', DigitalWrite tissue_greenLed HIGH,
          DigitalWrite tissue_redLed LOW] @
         (if buzzerActive s then [] else [Tone tissue_buzzer 3000]) @
         sweep_up 90 180 40 @
         [SerialPrintln ''Servo rotation completed.'', Delay 1000, ServoWrite 90,
          DigitalWrite tissue_greenLed LOW,
          SerialPrintln ''Resetting processStage to 0 (Restarting Process)...'',
          HttpGet ''http://YOUR_NODE1_IP/update_stage?stage=0'',
          SerialPrintln (if httpResponseCode1 e > 0
                         then ''Node 1 Response: '' @ String_int (httpResponseCode1 e)
                         else ''Error resetting.''),
          SerialPrintln ''Resetting processStage to 0 (Restarting Process)...'',
          HttpGet ''http://YOUR_NODE2_IP/update_stage?stage=0'',
          SerialPrintln (if httpResponseCode2 e > 0
                         then ''Node 2 Response: '' @ String_int (httpResponseCode2 e)
                         else ''Error resetting.'')],
       hasRotated := False, buzzerActive := True,
       buzzerStartTime := (if buzzerActive s then buzzerStartTime s else millis1 e)\<rparr>"
  by (cases "buzzerActive s")
    (simp_all add: tissue_dispense_def rotateServoSlowly_def sendResetSignal_def
      node1_IP_def node2_IP_def emit_def emits_def Let_def)

lemma tissue_stopBuzzer_fields:
  "processStage (tissue_stopBuzzer e s) = processStage s"
  "hasRotated (tissue_stopBuzzer e s) = hasRotated s"
  by (simp_all add: tissue_stopBuzzer_def emit_def Let_def)

lemma tissue_stopBuzzer_trace:
  "trace (tissue_stopBuzzer e s) =
     trace s @
       (if buzzerActive s \<and> 200 \<le> millis2 e - buzzerStartTime s
        then [NoTone tissue_buzzer, SerialPrintln ''Buzzer OFF after 200ms.''] else [])"
  by (simp add: tissue_stopBuzzer_def emit_def Let_def)

lemma tissue_loop_dispense:
  assumes "processStage s = 3" and "\<not> hasRotated s" and "request e = None"
    and "switch1 e = LOW" and "switch2 e = LOW"
  shows "tissue_loop P e s = tissue_stopBuzzer e (tissue_dispense e s)"
  using assms by (simp add: tissue_loop_def tissue_handleClient_None)

lemma tissue_loop_idle:
  assumes "processStage s \<noteq> 3" and "request e = None"
  shows "tissue_loop P e s = s"
  using assms by (simp add: tissue_loop_def tissue_handleClient_None)

lemma http_gets_append: "http_gets (xs @ ys) = http_gets xs @ http_gets ys"
  by (induction xs rule: http_gets.induct) simp_all

lemma http_gets_sweep_up: "http_gets (sweep_up angle toAngle stepDelay) = []"
  by (induction angle toAngle stepDelay rule: sweep_up.induct) (simp add: sweep_up.simps)

lemma delay_until_noTone_sweep:
  "delay_until_noTone p (sweep_up 90 180 40 @ evs) = 1840 + delay_until_noTone p evs"
  by (simp add: sweep_up.simps)

text \<open>
  In an iteration that dispenses with the buzzer not yet active, the events that follow
  \<^verbatim>\<open>tone(buzzer, 3000)\<close> hold 2840 ms of \<^verbatim>\<open>delay()\<close> (46 servo steps of 40 ms and the pause
  of 1000 ms) before the first \<^verbatim>\<open>noTone(buzzer)\<close> can come.
\<close>

lemma tissue_dispense_holds_tone:
  assumes "processStage s = 3" and "\<not> hasRotated s" and "\<not> buzzerActive s"
    and "request e = None" and "switch1 e = LOW" and "switch2 e = LOW"
  shows "tone_ms tissue_buzzer (drop (length (trace s)) (trace (tissue_loop P e s))) = 2840"
  using assms
  by (simp add: tissue_loop_dispense tissue_stopBuzzer_trace tissue_dispense_eq
      delay_until_noTone_sweep)

text \<open>
  Claim C2, as the spec states it, has the iteration that sweeps end with \<^verbatim>\<open>hasRotated\<close> true
  and the reset sent only by the next iteration.  On the code the iteration that sweeps has
  itself requested \<^verbatim>\<open>stage=0\<close> from both peers and ends in stage 0 with \<^verbatim>\<open>hasRotated\<close> false:
  \<^verbatim>\<open>if (hasRotated)\<close> stands in the same branch, right after the sweep.
\<close>

theorem tissue_reset_next_iteration_counterexample:
  "processStage (tissue_loop reference_platform (tissue_env_at 1000 4000 LOW)
       (tissue_init\<lparr>processStage := 3\<rparr>)) = 0 \<and>
   \<not> hasRotated (tissue_loop reference_platform (tissue_env_at 1000 4000 LOW)
       (tissue_init\<lparr>processStage := 3\<rparr>)) \<and>
   http_gets (trace (tissue_loop reference_platform (tissue_env_at 1000 4000 LOW)
       (tissue_init\<lparr>processStage := 3\<rparr>))) =
     [''http://YOUR_NODE1_IP/update_stage?stage=0'',
      ''http://YOUR_NODE2_IP/update_stage?stage=0'']"
proof -
  have "tissue_loop reference_platform (tissue_env_at 1000 4000 LOW)
       (tissue_init\<lparr>processStage := 3\<rparr>) =
     tissue_stopBuzzer (tissue_env_at 1000 4000 LOW)
       (tissue_dispense (tissue_env_at 1000 4000 LOW) (tissue_init\<lparr>processStage := 3\<rparr>))"
    by (rule tissue_loop_dispense) (simp_all add: tissue_init_def tissue_env_at_def)
  then show ?thesis
    by (simp add: tissue_stopBuzzer_fields tissue_stopBuzzer_trace tissue_dispense_eq
        http_gets_append http_gets_sweep_up tissue_init_def)
qed

text \<open>
  Claim C2, amended.  The tissue node is in stage 3 with \<^verbatim>\<open>hasRotated\<close> false, no request is
  pending and the microswitch reads closed (LOW).  The servo sweep sets \<^verbatim>\<open>hasRotated\<close>, and
  that same iteration, after the debounce \<^verbatim>\<open>delay(200)\<close> and the sweep, requests
  \<^verbatim>\<open>stage=0\<close> from node 1 and from node 2, sets the local stage to 0 and clears
  \<^verbatim>\<open>hasRotated\<close>; an iteration that follows with no request pending changes nothing.
\<close>

theorem tissue_dispense_and_reset:
  assumes "processStage s = 3" and "\<not> hasRotated s" and "request e = None"
    and "switch1 e = LOW" and "switch2 e = LOW"
  shows
    "(\<forall>x. hasRotated (rotateServoSlowly 90 180 40 x)) \<and>
     tissue_loop P e s = tissue_stopBuzzer e
       (s\<lparr>processStage := 0,
       trace := trace s @
         [Delay 200, SerialPrintln ''Tissue OK.'', DigitalWrite tissue_greenLed HIGH,
          DigitalWrite tissue_redLed LOW] @
         (if buzzerActive s then [] else [Tone tissue_buzzer 3000]) @
         sweep_up 90 180 40 @
         [SerialPrintln ''Servo rotation completed.'', Delay 1000, ServoWrite 90,
          DigitalWrite tissue_greenLed LOW,
          SerialPrintln ''Resetting processStage to 0 (Restarting Process)...'',
          HttpGet ''http://YOUR_NODE1_IP/update_stage?stage=0'',
          SerialPrintln (if httpResponseCode1 e > 0
                         then ''Node 1 Response: '' @ String_int (httpResponseCode1 e)
                         else ''Error resetting.''),
          SerialPrintln ''Resetting processStage to 0 (Restarting Process)...'',
          HttpGet ''http://YOUR_NODE2_IP/update_stage?stage=0'',
          SerialPrintln (if httpResponseCode2 e > 0
                         then ''Node 2 Response: '' @ String_int (httpResponseCode2 e)
                         else ''Error resetting.'')],
       hasRotated := False, buzzerActive := True,
       buzzerStartTime := (if buzzerActive s then buzzerStartTime s else millis1 e)\<rparr>) \<and>
     processStage (tissue_loop P e s) = 0 \<and>
     \<not> hasRotated (tissue_loop P e s) \<and>
     (\<forall>e'. request e' = None \<longrightarrow> tissue_loop P e' (tissue_loop P e s) = tissue_loop P e s)"
proof -
  have run: "tissue_loop P e s = tissue_stopBuzzer e (tissue_dispense e s)"
    using assms by (rule tissue_loop_dispense)
  have stage: "processStage (tissue_loop P e s) = 0"
    and flag: "\<not> hasRotated (tissue_loop P e s)"
    by (simp_all add: run tissue_stopBuzzer_fields tissue_dispense_eq)
  have after: "tissue_loop P e' (tissue_loop P e s) = tissue_loop P e s" if "request e' = None" for e'
    using that stage by (simp add: tissue_loop_idle)
  have sweep: "\<forall>x. hasRotated (rotateServoSlowly 90 180 40 x)"
    by (simp add: rotateServoSlowly_sets_flag)
  have explicit: "tissue_loop P e s = tissue_stopBuzzer e (tissue_dispense e s)
      \<longrightarrow> ?thesis"
    unfolding tissue_dispense_eq using sweep stage flag after by blast
  with run show ?thesis
    by blast
qed

theorem tissue_dispense_and_reset_witness:
  "processStage (tissue_loop reference_platform (tissue_env_at 1000 4000 LOW)
       (tissue_init\<lparr>processStage := 3\<rparr>)) = 0 \<and>
   \<not> hasRotated (tissue_loop reference_platform (tissue_env_at 1000 4000 LOW)
       (tissue_init\<lparr>processStage := 3\<rparr>)) \<and>
   tissue_loop reference_platform (tissue_env_at 5000 5000 LOW)
       (tissue_loop reference_platform (tissue_env_at 1000 4000 LOW)
         (tissue_init\<lparr>processStage := 3\<rparr>)) =
     tissue_loop reference_platform (tissue_env_at 1000 4000 LOW)
       (tissue_init\<lparr>processStage := 3\<rparr>)"
proof -
  have h1: "processStage (tissue_init\<lparr>processStage := 3\<rparr>) = 3"
    and h2: "\<not> hasRotated (tissue_init\<lparr>processStage := 3\<rparr>)"
    by (simp_all add: tissue_init_def)
  have h3: "request (tissue_env_at 1000 4000 LOW) = None"
    and h4: "switch1 (tissue_env_at 1000 4000 LOW) = LOW"
    and h5: "switch2 (tissue_env_at 1000 4000 LOW) = LOW"
    and h6: "request (tissue_env_at 5000 5000 LOW) = None"
    by (simp_all add: tissue_env_at_def)
  note run = tissue_dispense_and_reset [OF h1 h2 h3 h4 h5, of reference_platform]
  from run h6 show ?thesis
    by blast
qed

text \<open>
  Claim C8 fails on the code.  Stage 3, switch closed, nothing rotated and the buzzer silent:
  the iteration calls \<^verbatim>\<open>tone(buzzer, 3000)\<close>, then blocks in the servo sweep and the pause that
  follows, and reaches its only \<^verbatim>\<open>noTone\<close> check after 2840 ms of \<^verbatim>\<open>delay()\<close>, not within
  200 ms.
\<close>

theorem tissue_buzzer_held_through_sweep:
  "tone_ms tissue_buzzer
     (trace (tissue_loop reference_platform (tissue_env_at 1000 4000 LOW)
       (tissue_init\<lparr>processStage := 3\<rparr>))) = 2840 \<and>
   buzzerStartTime (tissue_loop reference_platform (tissue_env_at 1000 4000 LOW)
       (tissue_init\<lparr>processStage := 3\<rparr>)) = 1000"
proof -
  have "tissue_loop reference_platform (tissue_env_at 1000 4000 LOW)
       (tissue_init\<lparr>processStage := 3\<rparr>) =
     tissue_stopBuzzer (tissue_env_at 1000 4000 LOW)
       (tissue_dispense (tissue_env_at 1000 4000 LOW) (tissue_init\<lparr>processStage := 3\<rparr>))"
    by (rule tissue_loop_dispense) (simp_all add: tissue_init_def tissue_env_at_def)
  then show ?thesis
    by (simp add: tissue_stopBuzzer_trace tissue_stopBuzzer_def tissue_dispense_eq
        delay_until_noTone_sweep tissue_init_def tissue_env_at_def emit_def Let_def)
qed

section \<open>The status handlers\<close>

lemma tissue_serveStatus_eq:
  \<open>tissue_serveStatus e s =
     emit (ServerSend 200 ''application/json''
       (''{"process_stage":'' @ String_int (processStage s) @
        '',"microswitch":'' @ (if switch0 e = HIGH then ''true'' else ''false'') @
        '',"servo_rotated":'' @ (if hasRotated s then ''true'' else ''false'') @
        '',}'')) s\<close>
  by (simp add: tissue_serveStatus_def Let_def)

lemma water_serveStatus_eq:
  \<open>water_serveStatus s =
     emit (ServerSend 200 ''application/json''
       (''{"water_level":'' @ String_int (distance1 s) @
        '',"hand_distance":'' @ String_int (distance2 s) @
        '',"pump_running":'' @ (if pumpRunning s then ''true'' else ''false'') @
        '',"process_stage":'' @ String_int (processStage s) @
        ''}'')) s\<close>
  by (simp add: water_serveStatus_def Let_def)

lemma soap_serveStatus_eq:
  \<open>soap_serveStatus s =
     emit (ServerSend 200 ''application/json''
       (''{"soap_level":'' @ String_int (distance1 s) @
        '',"pump_running":'' @ (if pumpRunning s then ''true'' else ''false'') @
        '',"process_stage":'' @ String_int (processStage s) @
        ''}'')) s\<close>
  by (simp add: soap_serveStatus_def Let_def)

lemma digit_char:
  assumes "k < 10"
  shows "isdigit (''0123456789'' ! k)" and "(of_char (''0123456789'' ! k) :: int) - 48 = int k"
proof -
  from assms have "k \<in> {0, 1, 2, 3, 4, 5, 6, 7, 8, 9}" by auto
  then show "isdigit (''0123456789'' ! k)" and "(of_char (''0123456789'' ! k) :: int) - 48 = int k"
    by (auto simp: isdigit_def)
qed

lemma decimal_digits: "decimal n \<noteq> [] \<and> (\<forall>c \<in> set (decimal n). isdigit c)"
proof (induction n rule: decimal.induct)
  case (1 n)
  show ?case
  proof (cases "n < 10")
    case True
    then show ?thesis by (subst decimal.simps, subst decimal.simps) (simp add: digit_char)
  next
    case False
    then show ?thesis
      using 1 by (subst decimal.simps, subst decimal.simps) (simp add: digit_char)
  qed
qed

lemma digits_value_append:
  "\<forall>c \<in> set xs. isdigit c \<Longrightarrow> digits_value acc (xs @ ys) = digits_value (digits_value acc xs) ys"
  by (induction xs arbitrary: acc) simp_all

lemma digits_value_decimal: "digits_value 0 (decimal n) = int n"
proof (induction n rule: decimal.induct)
  case (1 n)
  show ?case
  proof (cases "n < 10")
    case True
    then show ?thesis by (subst decimal.simps) (simp add: digit_char)
  next
    case False
    then have "digits_value 0 (decimal n) =
        digits_value (digits_value 0 (decimal (n div 10))) [''0123456789'' ! (n mod 10)]"
      by (subst decimal.simps) (simp add: digits_value_append decimal_digits)
    also have "\<dots> = int (n div 10) * 10 + int (n mod 10)"
      using 1 False by (simp add: digit_char)
    also have "\<dots> = int n"
      by presburger
    finally show ?thesis .
  qed
qed

lemma json_value_number:
  assumes "\<not> isdigit c"
  shows "json_value (String_int i @ c # rest) = Some (JNumber i, c # rest)"
proof -
  define n where "n = nat \<bar>i\<bar>"
  obtain d ds where dec: "decimal n = d # ds"
    using decimal_digits [of n] by (cases "decimal n") auto
  have digs: "\<forall>x \<in> set (decimal n). isdigit x"
    using decimal_digits [of n] by simp
  then have d: "isdigit d" by (simp add: dec)
  then have dne: "d \<noteq> CHR ''t''" "d \<noteq> CHR ''f''" "d \<noteq> CHR ''-''"
    by (auto simp: isdigit_def)
  have tw: "takeWhile isdigit (decimal n @ c # rest) = decimal n"
    and dw: "dropWhile isdigit (decimal n @ c # rest) = c # rest"
    using digs assms by (simp_all add: takeWhile_append2 dropWhile_append2)
  show ?thesis
  proof (cases "i < 0")
    case True
    then have s: "String_int i = CHR ''-'' # decimal n"
      by (simp add: String_int_def n_def)
    have "int n = - i" using True by (simp add: n_def)
    moreover have "decimal n \<noteq> []"
      using decimal_digits [of n] by simp
    ultimately show ?thesis
      using tw dw by (simp add: json_value_def s Let_def digits_value_decimal)
  next
    case False
    then have s: "String_int i = decimal n"
      by (simp add: String_int_def n_def)
    have "int n = i" using False by (simp add: n_def)
    moreover have "decimal n \<noteq> []"
      using decimal_digits [of n] by simp
    moreover have "take 4 (decimal n @ c # rest) \<noteq> ''true''"
      and "take 5 (decimal n @ c # rest) \<noteq> ''false''"
      and "hd (decimal n @ c # rest) \<noteq> CHR ''-''"
      using dne by (simp_all add: dec)
    moreover have "(case decimal n @ c # rest of [] \<Rightarrow> [] | x # xs \<Rightarrow> if x = CHR ''-'' then xs else x # xs)
        = decimal n @ c # rest"
      using dne by (simp add: dec)
    ultimately show ?thesis
      using tw dw by (simp add: json_value_def s Let_def digits_value_decimal)
  qed
qed

lemma json_value_true: "json_value (CHR ''t'' # CHR ''r'' # CHR ''u'' # CHR ''e'' # rest) = Some (JBool True, rest)"
  by (simp add: json_value_def)

lemma json_value_false:
  "json_value (CHR ''f'' # CHR ''a'' # CHR ''l'' # CHR ''s'' # CHR ''e'' # rest) = Some (JBool False, rest)"
  by (simp add: json_value_def)

lemma not_digit_sep: "\<not> isdigit CHR '',''" "\<not> isdigit CHR ''}''"
  by (simp_all add: isdigit_def)

lemma water_status_wellformed:
  \<open>json_object
     (''{"water_level":'' @ String_int a @
      '',"hand_distance":'' @ String_int b @
      '',"pump_running":'' @ (if r then ''true'' else ''false'') @
      '',"process_stage":'' @ String_int c @
      ''}'') =
   Some [(''water_level'', JNumber a), (''hand_distance'', JNumber b),
         (''pump_running'', JBool r), (''process_stage'', JNumber c)]\<close>
  by (cases r)
    (simp_all add: json_object_def json_string_def json_value_number json_value_true
      json_value_false not_digit_sep)

lemma soap_status_wellformed:
  \<open>json_object
     (''{"soap_level":'' @ String_int a @
      '',"pump_running":'' @ (if r then ''true'' else ''false'') @
      '',"process_stage":'' @ String_int c @
      ''}'') =
   Some [(''soap_level'', JNumber a), (''pump_running'', JBool r), (''process_stage'', JNumber c)]\<close>
  by (cases r)
    (simp_all add: json_object_def json_string_def json_value_number json_value_true
      json_value_false not_digit_sep)

lemma tissue_status_malformed:
  \<open>json_object
     (''{"process_stage":'' @ String_int a @
      '',"microswitch":'' @ (if m then ''true'' else ''false'') @
      '',"servo_rotated":'' @ (if r then ''true'' else ''false'') @
      '',}'') = None\<close>
  by (cases r; cases m)
    (simp_all add: json_object_def json_string_def json_value_number json_value_true
      json_value_false not_digit_sep)

lemma last_response_snoc:
  "last_response (evs @ [ServerSend code ctype body]) = Some (code, body)"
  by (induction evs) simp_all

text \<open>
  In every state the water and the soap handler answer with status 200 and a JSON object
  that has exactly the listed members, with the values of the variables; in every state and
  for either switch reading the tissue handler answers with status 200 and a body that is
  not a JSON object.
\<close>

lemma water_status_all_states:
  "\<exists>body. last_response (trace (water_serveStatus s)) = Some (200, body) \<and>
     json_object body =
       Some [(''water_level'', JNumber (distance1 s)), (''hand_distance'', JNumber (distance2 s)),
             (''pump_running'', JBool (pumpRunning s)), (''process_stage'', JNumber (processStage s))]"
proof -
  let ?body = \<open>''{"water_level":'' @ String_int (distance1 s) @
      '',"hand_distance":'' @ String_int (distance2 s) @
      '',"pump_running":'' @ (if pumpRunning s then ''true'' else ''false'') @
      '',"process_stage":'' @ String_int (processStage s) @
      ''}''\<close>
  have "last_response (trace (water_serveStatus s)) = Some (200, ?body)"
    unfolding water_serveStatus_eq emit_def by (simp add: last_response_snoc)
  with water_status_wellformed [of "distance1 s" "distance2 s" "pumpRunning s" "processStage s"]
  show ?thesis
    by blast
qed

lemma soap_status_all_states:
  "\<exists>body. last_response (trace (soap_serveStatus s)) = Some (200, body) \<and>
     json_object body =
       Some [(''soap_level'', JNumber (distance1 s)), (''pump_running'', JBool (pumpRunning s)),
             (''process_stage'', JNumber (processStage s))]"
proof -
  let ?body = \<open>''{"soap_level":'' @ String_int (distance1 s) @
      '',"pump_running":'' @ (if pumpRunning s then ''true'' else ''false'') @
      '',"process_stage":'' @ String_int (processStage s) @
      ''}''\<close>
  have "last_response (trace (soap_serveStatus s)) = Some (200, ?body)"
    unfolding soap_serveStatus_eq emit_def by (simp add: last_response_snoc)
  with soap_status_wellformed [of "distance1 s" "pumpRunning s" "processStage s"]
  show ?thesis
    by blast
qed

lemma tissue_status_all_states:
  "\<exists>body. last_response (trace (tissue_serveStatus e s)) = Some (200, body) \<and>
     json_object body = None"
proof -
  let ?body = \<open>''{"process_stage":'' @ String_int (processStage s) @
      '',"microswitch":'' @ (if switch0 e = HIGH then ''true'' else ''false'') @
      '',"servo_rotated":'' @ (if hasRotated s then ''true'' else ''false'') @
      '',}''\<close>
  have "last_response (trace (tissue_serveStatus e s)) = Some (200, ?body)"
    unfolding tissue_serveStatus_eq emit_def by (simp add: last_response_snoc)
  with tissue_status_malformed [of "processStage s" "switch0 e = HIGH" "hasRotated s"]
  show ?thesis
    by blast
qed

text \<open>
  Claim C9 fails on the code for the tissue node.  Its \<^verbatim>\<open>serveStatus\<close> appends a comma after
  the last member, so the body ends in \<^verbatim>\<open>,}\<close> and is not a JSON object; the status code is
  200 all the same.  In the initial state with the switch closed the body is the text below.
  The water and soap handlers, which put no comma after their last member, answer with
  objects that have exactly the listed fields.
\<close>

theorem tissue_status_body_malformed:
  \<open>last_response (trace (tissue_serveStatus (tissue_env_at 0 0 LOW) tissue_init)) =
     Some (200, ''{"process_stage":0,"microswitch":false,"servo_rotated":false,}'') \<and>
   json_object ''{"process_stage":0,"microswitch":false,"servo_rotated":false,}'' = None \<and>
   json_object ''{"process_stage":0,"microswitch":false,"servo_rotated":false}'' =
     Some [(''process_stage'', JNumber 0), (''microswitch'', JBool False),
           (''servo_rotated'', JBool False)] \<and>
   last_response (trace (water_serveStatus water_init)) =
     Some (200, ''{"water_level":0,"hand_distance":0,"pump_running":false,"process_stage":0}'') \<and>
   json_object ''{"water_level":0,"hand_distance":0,"pump_running":false,"process_stage":0}'' =
     Some [(''water_level'', JNumber 0), (''hand_distance'', JNumber 0),
           (''pump_running'', JBool False), (''process_stage'', JNumber 0)] \<and>
   last_response (trace (soap_serveStatus soap_init)) =
     Some (200, ''{"soap_level":0,"pump_running":false,"process_stage":0}'') \<and>
   json_object ''{"soap_level":0,"pump_running":false,"process_stage":0}'' =
     Some [(''soap_level'', JNumber 0), (''pump_running'', JBool False),
           (''process_stage'', JNumber 0)]\<close>
  by (simp add: tissue_serveStatus_eq water_serveStatus_eq soap_serveStatus_eq
      tissue_env_at_def tissue_init_def water_init_def soap_init_def emit_def
      String_int_def decimal.simps json_object_def json_string_def json_value_def isdigit_def)

end
